theory Spec2Isabelle
  imports Main "HOL-Library.Sublist" "HOL-Library.Char_ord" "HOL-Library.List_Lexorder"
    "HOL-Library.Product_Lexorder" "HOL-Library.Monad_Syntax"
begin

section \<open>Text: characters and the character classes of Python's re\<close>

text \<open>
  A Python \<open>str\<close> is modelled as a \<open>string\<close> whose characters are code points below 256
  (the Latin-1 range). The classes below are the Unicode-aware classes that \<open>re\<close> uses
  for \<open>str\<close> patterns, restricted to that range.
\<close>

definition code :: "char \<Rightarrow> nat" where
  "code c = of_char c"

text \<open>\<open>\d\<close>: the decimal digits; below 256 these are \<open>0\<close> to \<open>9\<close> only.\<close>

definition is_digit :: "char \<Rightarrow> bool" where
  "is_digit c = (48 \<le> code c \<and> code c \<le> 57)"

text \<open>\<open>\s\<close>: tab, line feed, vertical tab, form feed, carriage return, the separators
  0x1C to 0x1F, the space, NEL (0x85) and the no-break space (0xA0).\<close>

definition is_space :: "char \<Rightarrow> bool" where
  "is_space c = ((9 \<le> code c \<and> code c \<le> 13) \<or> (28 \<le> code c \<and> code c \<le> 32)
     \<or> code c = 133 \<or> code c = 160)"

text \<open>\<open>\w\<close>: the alphanumeric characters and the underscore. Below 256 the alphanumerics
  are the ASCII letters and digits, the letters 0xAA, 0xB5, 0xBA, 0xC0-0xD6, 0xD8-0xF6,
  0xF8-0xFF and the numeric characters 0xB2, 0xB3, 0xB9, 0xBC-0xBE.\<close>

definition is_word :: "char \<Rightarrow> bool" where
  "is_word c = ((48 \<le> code c \<and> code c \<le> 57) \<or> (65 \<le> code c \<and> code c \<le> 90)
     \<or> code c = 95 \<or> (97 \<le> code c \<and> code c \<le> 122)
     \<or> code c = 170 \<or> code c = 178 \<or> code c = 179 \<or> code c = 181
     \<or> (185 \<le> code c \<and> code c \<le> 186) \<or> (188 \<le> code c \<and> code c \<le> 190)
     \<or> (192 \<le> code c \<and> code c \<le> 214) \<or> (216 \<le> code c \<and> code c \<le> 246)
     \<or> 248 \<le> code c)"

section \<open>Regular expressions\<close>

text \<open>
  The patterns of the program are sequences of items: one character of a class, a class
  repeated greedily zero or more times (\<open>*\<close>) or one or more times (\<open>+\<close>). A counted
  repetition \<open>{n}\<close> is \<open>n\<close> copies of the item, a literal is an item for each of its
  characters.
\<close>

datatype item = One "char \<Rightarrow> bool" | Star "char \<Rightarrow> bool" | Plus "char \<Rightarrow> bool"

definition lit :: "string \<Rightarrow> item list" where
  "lit s = map (\<lambda>c. One (\<lambda>x. x = c)) s"

text \<open>\<open>match_here p s\<close> matches \<open>p\<close> at the start of \<open>s\<close> and returns the matched
  text and what follows it. A repetition takes as many characters as it can and gives
  them back one by one when the rest of the pattern fails, as the backtracking matcher of
  \<open>re\<close> does.\<close>

definition matched :: "char \<Rightarrow> (string \<times> string) option \<Rightarrow> (string \<times> string) option" where
  "matched c res = (case res of Some (m, t) \<Rightarrow> Some (c # m, t) | None \<Rightarrow> None)"

fun match_here :: "item list \<Rightarrow> string \<Rightarrow> (string \<times> string) option" where
  "match_here [] s = Some ([], s)"
| "match_here (One p # r) [] = None"
| "match_here (One p # r) (c # cs) = (if p c then matched c (match_here r cs) else None)"
| "match_here (Star p # r) [] = match_here r []"
| "match_here (Star p # r) (c # cs) =
     (if p c then (case match_here (Star p # r) cs of Some (m, t) \<Rightarrow> Some (c # m, t)
                   | None \<Rightarrow> match_here r (c # cs))
      else match_here r (c # cs))"
| "match_here (Plus p # r) [] = None"
| "match_here (Plus p # r) (c # cs) =
     (if p c then matched c (match_here (Star p # r) cs) else None)"

text \<open>\<open>re.search\<close>: the leftmost match, as (text before, matched text, text after).\<close>

fun re_search :: "item list \<Rightarrow> string \<Rightarrow> (string \<times> string \<times> string) option" where
  "re_search p [] = (case match_here p [] of Some (m, t) \<Rightarrow> Some ([], m, t) | None \<Rightarrow> None)"
| "re_search p (c # cs) =
     (case match_here p (c # cs) of
        Some (m, t) \<Rightarrow> Some ([], m, t)
      | None \<Rightarrow> (case re_search p cs of Some (b, m, a) \<Rightarrow> Some (c # b, m, a) | None \<Rightarrow> None))"

text \<open>\<open>re.sub(p, '', s, 1)\<close>: the leftmost match removed, once.\<close>

definition re_sub_once :: "item list \<Rightarrow> string \<Rightarrow> string" where
  "re_sub_once p s = (case re_search p s of Some (b, m, a) \<Rightarrow> b @ a | None \<Rightarrow> s)"

text \<open>\<open>re.split(p, s, maxsplit)\<close> for a pattern that matches no empty text and a maxsplit
  of at least one (the program calls it with \<open>\s+\<close> and 5 or 3): the first argument counts
  the splits still allowed.\<close>

fun re_split :: "item list \<Rightarrow> nat \<Rightarrow> string \<Rightarrow> string list" where
  "re_split p 0 s = [s]"
| "re_split p (Suc n) s =
     (case re_search p s of Some (b, m, a) \<Rightarrow> b # re_split p n a | None \<Rightarrow> [s])"


section \<open>Keyword patterns\<close>

text \<open>
  The two keyword patterns are alternations of literals: besides \<open>|\<close> their only regex
  syntax is the backslash that makes a parenthesis or bracket literal. \<open>alternatives\<close>
  reads such a pattern into its branches; \<open>re.search\<close> on it finds a branch somewhere in
  the line. The pacemaker pattern is written in the source as three adjacent string
  literals, which Python concatenates.
\<close>

definition pacemaker_log_keywords :: string where
  "pacemaker_log_keywords =
     ''LogAction|LogNodeActions|stonith-ng|pacemaker-fenced|crit:|check_migration_threshold|corosync|Result''
     @ '' of|reboot|cannot run anywhere|attrd_peer_update|High CPU load detected|cli-ban|cli-prefer''
     @ ''cib-bootstrap-options-maintenance-mode|-is-managed|-maintenance|-standby''"

definition backslash :: char where
  "backslash = CHR 0x5C"

definition system_log_keywords :: string where
  "system_log_keywords =
     ''SAPHana'' @ [backslash] @ ''(|SAPHanaController'' @ [backslash] @ ''(|SAPHanaTopology''
     @ [backslash] @ ''(|SAPInstance'' @ [backslash]
     @ ''(|gcp-vpc-move-vip|gcp:alias|gcp:stonith|fence_gce|corosync'' @ [backslash] @ ''[|Result''
     @ '' of|reboot''"

fun alternatives :: "string \<Rightarrow> string list" where
  "alternatives [] = [[]]"
| "alternatives [c] = (if c = CHR ''|'' then [[], []] else [[c]])"
| "alternatives (c # d # cs) =
     (if c = CHR ''|'' then [] # alternatives (d # cs)
      else if c = backslash then (case alternatives cs of a # as \<Rightarrow> (d # a) # as | [] \<Rightarrow> [[d]])
      else (case alternatives (d # cs) of a # as \<Rightarrow> (c # a) # as | [] \<Rightarrow> [[c]]))"

definition keyword_search :: "string \<Rightarrow> string \<Rightarrow> bool" where
  "keyword_search pattern logline =
     list_ex (\<lambda>k. re_search (lit k) logline \<noteq> None) (alternatives pattern)"

section \<open>Timestamps\<close>

record datetime =
  year :: nat
  month :: nat
  day :: nat
  hour :: nat
  minute :: nat
  second :: nat

text \<open>\<open>str\<close> of a non-negative \<open>int\<close>, and \<open>int\<close> of a text of digits; \<open>int\<close> ignores
  whitespace around the digits.\<close>

definition digit_char :: "nat \<Rightarrow> char" where
  "digit_char d = char_of (48 + d)"

fun str_nat :: "nat \<Rightarrow> string" where
  "str_nat n = (if n < 10 then [digit_char n] else str_nat (n div 10) @ [digit_char (n mod 10)])"

declare str_nat.simps [simp del]

definition py_int :: "string \<Rightarrow> nat" where
  "py_int s =
     foldl (\<lambda>a c. 10 * a + (code c - 48)) 0
       (rev (dropWhile is_space (rev (dropWhile is_space s))))"

text \<open>\<open>str\<close> of a \<open>datetime\<close> without microseconds: \<open>YYYY-MM-DD HH:MM:SS\<close>, every field
  padded with zeros.\<close>

definition zfill :: "nat \<Rightarrow> string \<Rightarrow> string" where
  "zfill w s = replicate (w - length s) (CHR ''0'') @ s"

definition str_datetime :: "datetime \<Rightarrow> string" where
  "str_datetime t =
     zfill 4 (str_nat (year t)) @ ''-'' @ zfill 2 (str_nat (month t)) @ ''-''
     @ zfill 2 (str_nat (day t)) @ '' '' @ zfill 2 (str_nat (hour t)) @ '':''
     @ zfill 2 (str_nat (minute t)) @ '':'' @ zfill 2 (str_nat (second t))"

text \<open>The constructor of \<open>datetime\<close> raises ValueError (here \<open>None\<close>) for a field out of
  range.\<close>

definition is_leap :: "nat \<Rightarrow> bool" where
  "is_leap y = (y mod 4 = 0 \<and> (y mod 100 \<noteq> 0 \<or> y mod 400 = 0))"

definition days_in_month :: "nat \<Rightarrow> nat \<Rightarrow> nat" where
  "days_in_month y m =
     (if m = 2 then (if is_leap y then 29 else 28)
      else if m = 4 \<or> m = 6 \<or> m = 9 \<or> m = 11 then 30 else 31)"

definition new_datetime :: "nat \<Rightarrow> nat \<Rightarrow> nat \<Rightarrow> nat \<Rightarrow> nat \<Rightarrow> nat \<Rightarrow> datetime option" where
  "new_datetime y mo d h mi s =
     (if 1 \<le> y \<and> y \<le> 9999 \<and> 1 \<le> mo \<and> mo \<le> 12 \<and> 1 \<le> d \<and> d \<le> days_in_month y mo
         \<and> h \<le> 23 \<and> mi \<le> 59 \<and> s \<le> 59
      then Some \<lparr>year = y, month = mo, day = d, hour = h, minute = mi, second = s\<rparr>
      else None)"

subsection \<open>strptime\<close>

text \<open>
  \<open>strptime\<close> turns the format into a regular expression, one group for each directive,
  matches it at the start of the text and raises ValueError when it does not match or
  leaves text over. Each directive below is the alternation the library uses for it,
  tried in its order; a parser returns the text of the group and the text that follows.
  Whitespace in the format stands for \<open>\s+\<close>. The month names are those of the C
  locale, matched without regard to case.
\<close>

type_synonym parser = "string \<Rightarrow> (string \<times> string) option"

definition rng :: "char \<Rightarrow> char \<Rightarrow> char \<Rightarrow> bool" where
  "rng lo hi c = (code lo \<le> code c \<and> code c \<le> code hi)"

definition one :: "(char \<Rightarrow> bool) \<Rightarrow> parser" where
  "one p s = (case s of a # r \<Rightarrow> if p a then Some ([a], r) else None | [] \<Rightarrow> None)"

definition two :: "(char \<Rightarrow> bool) \<Rightarrow> (char \<Rightarrow> bool) \<Rightarrow> parser" where
  "two p q s =
     (case s of a # b # r \<Rightarrow> if p a \<and> q b then Some ([a, b], r) else None | _ \<Rightarrow> None)"

fun first_of :: "parser list \<Rightarrow> parser" where
  "first_of [] s = None"
| "first_of (p # ps) s = (case p s of Some r \<Rightarrow> Some r | None \<Rightarrow> first_of ps s)"

text \<open>\<open>%Y\<close> is \<open>\d\d\d\d\<close>.\<close>

definition dir_Y :: parser where
  "dir_Y s =
     (case s of a # b # c # d # r \<Rightarrow>
        if is_digit a \<and> is_digit b \<and> is_digit c \<and> is_digit d then Some ([a, b, c, d], r)
        else None
      | _ \<Rightarrow> None)"

text \<open>\<open>%m\<close> is \<open>1[0-2]|0[1-9]|[1-9]\<close>.\<close>

definition dir_m :: parser where
  "dir_m = first_of [two (rng (CHR ''1'') (CHR ''1'')) (rng (CHR ''0'') (CHR ''2'')),
                     two (rng (CHR ''0'') (CHR ''0'')) (rng (CHR ''1'') (CHR ''9'')),
                     one (rng (CHR ''1'') (CHR ''9''))]"

text \<open>\<open>%d\<close> is \<open>3[0-1]|[1-2]\d|0[1-9]|[1-9]| [1-9]\<close>.\<close>

definition dir_d :: parser where
  "dir_d = first_of [two (rng (CHR ''3'') (CHR ''3'')) (rng (CHR ''0'') (CHR ''1'')),
                     two (rng (CHR ''1'') (CHR ''2'')) is_digit,
                     two (rng (CHR ''0'') (CHR ''0'')) (rng (CHR ''1'') (CHR ''9'')),
                     one (rng (CHR ''1'') (CHR ''9'')),
                     two (rng (CHR '' '') (CHR '' '')) (rng (CHR ''1'') (CHR ''9''))]"

text \<open>\<open>%H\<close> is \<open>2[0-3]|[0-1]\d|\d\<close>.\<close>

definition dir_H :: parser where
  "dir_H = first_of [two (rng (CHR ''2'') (CHR ''2'')) (rng (CHR ''0'') (CHR ''3'')),
                     two (rng (CHR ''0'') (CHR ''1'')) is_digit,
                     one is_digit]"

text \<open>\<open>%M\<close> is \<open>[0-5]\d|\d\<close>.\<close>

definition dir_M :: parser where
  "dir_M = first_of [two (rng (CHR ''0'') (CHR ''5'')) is_digit, one is_digit]"

text \<open>\<open>%S\<close> is \<open>6[0-1]|[0-5]\d|\d\<close>.\<close>

definition dir_S :: parser where
  "dir_S = first_of [two (rng (CHR ''6'') (CHR ''6'')) (rng (CHR ''0'') (CHR ''1'')),
                     two (rng (CHR ''0'') (CHR ''5'')) is_digit,
                     one is_digit]"

text \<open>\<open>%b\<close> is the alternation of the abbreviated month names; the value of the group
  is the position of its text among them. Letters are compared by the codes of their
  lower-case forms; only the letters of ASCII have an ASCII letter as the other case.\<close>

definition lower_code :: "char \<Rightarrow> nat" where
  "lower_code c = (if 65 \<le> code c \<and> code c \<le> 90 then code c + 32 else code c)"

definition same_nocase :: "string \<Rightarrow> string \<Rightarrow> bool" where
  "same_nocase s t = (map lower_code s = map lower_code t)"

definition month_abbr :: "string list" where
  "month_abbr = [''jan'', ''feb'', ''mar'', ''apr'', ''may'', ''jun'',
                 ''jul'', ''aug'', ''sep'', ''oct'', ''nov'', ''dec'']"

definition dir_b :: parser where
  "dir_b s =
     (case s of a # b # c # r \<Rightarrow>
        if list_ex (same_nocase [a, b, c]) month_abbr then Some ([a, b, c], r) else None
      | _ \<Rightarrow> None)"

fun find_index :: "('a \<Rightarrow> bool) \<Rightarrow> 'a list \<Rightarrow> nat" where
  "find_index P [] = 0"
| "find_index P (y # ys) = (if P y then 0 else Suc (find_index P ys))"

definition month_of_abbr :: "string \<Rightarrow> nat" where
  "month_of_abbr g = Suc (find_index (same_nocase g) month_abbr)"

text \<open>Whitespace of the format (\<open>\s+\<close>) and a literal character of the format.\<close>

definition ws :: "string \<Rightarrow> string option" where
  "ws s = (case s of a # r \<Rightarrow> if is_space a then Some (dropWhile is_space r) else None
           | [] \<Rightarrow> None)"

definition chr :: "char \<Rightarrow> string \<Rightarrow> string option" where
  "chr c s = (case s of a # r \<Rightarrow> if a = c then Some r else None | [] \<Rightarrow> None)"


text \<open>\<open>strptime(data, '%Y %b %d %H:%M:%S')\<close>; \<open>None\<close> is ValueError.\<close>

definition strptime_format1 :: "string \<Rightarrow> datetime option" where
  "strptime_format1 data = do {
     (gY, s1) \<leftarrow> dir_Y data;
     s2 \<leftarrow> ws s1;
     (gb, s3) \<leftarrow> dir_b s2;
     s4 \<leftarrow> ws s3;
     (gd, s5) \<leftarrow> dir_d s4;
     s6 \<leftarrow> ws s5;
     (gH, s7) \<leftarrow> dir_H s6;
     s8 \<leftarrow> chr (CHR '':'') s7;
     (gM, s9) \<leftarrow> dir_M s8;
     s10 \<leftarrow> chr (CHR '':'') s9;
     (gS, s11) \<leftarrow> dir_S s10;
     if s11 = [] then
       new_datetime (py_int gY) (month_of_abbr gb) (py_int gd) (py_int gH) (py_int gM) (py_int gS)
     else None
   }"

text \<open>\<open>strptime(data, '%Y-%m-%dT%H:%M:%S')\<close>.\<close>

definition strptime_format2 :: "string \<Rightarrow> datetime option" where
  "strptime_format2 data = do {
     (gY, s1) \<leftarrow> dir_Y data;
     s2 \<leftarrow> chr (CHR ''-'') s1;
     (gm, s3) \<leftarrow> dir_m s2;
     s4 \<leftarrow> chr (CHR ''-'') s3;
     (gd, s5) \<leftarrow> dir_d s4;
     s6 \<leftarrow> chr (CHR ''T'') s5;
     (gH, s7) \<leftarrow> dir_H s6;
     s8 \<leftarrow> chr (CHR '':'') s7;
     (gM, s9) \<leftarrow> dir_M s8;
     s10 \<leftarrow> chr (CHR '':'') s9;
     (gS, s11) \<leftarrow> dir_S s10;
     if s11 = [] then
       new_datetime (py_int gY) (py_int gm) (py_int gd) (py_int gH) (py_int gM) (py_int gS)
     else None
   }"

section \<open>The log parser\<close>

text \<open>The ways a call can end without returning: \<open>sys.exit()\<close>, an IndexError, and the
  use of a variable that no branch has assigned.\<close>

datatype error = SysExit | IndexError | UnboundLocalError

text \<open>A row of the table \<open>log\<close>, with the rowid that SQLite gives it.\<close>

record row =
  rowid :: nat
  TIME :: string
  NODE :: string
  COMPONENT :: string
  PAYLOAD :: string

subsection \<open>format_timestamp_from_logline\<close>

text \<open>Time format 1 is \<open>\w{3}\s+\d+\s\d\d:\d\d:\d\d\<close> (Nov 22 00:00:00), time format 2 is
  \<open>\d{4}-\d\d-\d\dT\d\d:\d\d:\d\d\<close> (2020-11-22T00:00:00).\<close>

definition hms_re :: "item list" where
  "hms_re = [One is_digit, One is_digit] @ lit '':'' @ [One is_digit, One is_digit] @ lit '':''
     @ [One is_digit, One is_digit]"

definition time_format1 :: "item list" where
  "time_format1 = replicate 3 (One is_word) @ [Plus is_space, Plus is_digit, One is_space] @ hms_re"

definition time_format2 :: "item list" where
  "time_format2 = replicate 4 (One is_digit) @ lit ''-'' @ [One is_digit, One is_digit] @ lit ''-''
     @ [One is_digit, One is_digit] @ lit ''T'' @ hms_re"

text \<open>
  The result is the timestamp and the number of the format that matched, \<open>None\<close> when
  neither format is found in the line; a ValueError of \<open>strptime\<close> ends the run with
  \<open>sys.exit()\<close>. \<open>now_year\<close> is \<open>datetime.datetime.now().year\<close>.
\<close>

definition format_timestamp_from_logline :: "nat \<Rightarrow> string \<Rightarrow> error + (datetime \<times> nat) option" where
  "format_timestamp_from_logline now_year line =
     (case re_search time_format1 line of
        Some (b, g, a) \<Rightarrow>
          (case strptime_format1 (str_nat now_year @ '' '' @ g) of
             Some t \<Rightarrow> Inr (Some (t, 1))
           | None \<Rightarrow> Inl SysExit)
      | None \<Rightarrow>
          (case re_search time_format2 line of
             Some (b, g, a) \<Rightarrow>
               (case strptime_format2 g of
                  Some t \<Rightarrow> Inr (Some (t, 2))
                | None \<Rightarrow> Inl SysExit)
           | None \<Rightarrow> Inr None))"

subsection \<open>parse_log_line\<close>

text \<open>Indexing a list raises IndexError out of range; \<open>strip\<close> removes the given
  characters from both ends.\<close>

definition index :: "'a list \<Rightarrow> nat \<Rightarrow> error + 'a" where
  "index xs i = (if i < length xs then Inr (xs ! i) else Inl IndexError)"

definition strip :: "string \<Rightarrow> string \<Rightarrow> string" where
  "strip chars s =
     rev (dropWhile (\<lambda>c. c \<in> set chars) (rev (dropWhile (\<lambda>c. c \<in> set chars) s)))"

text \<open>\<open>INSERT INTO log VALUES (?,?,?,?)\<close>: the new row gets the rowid after the
  largest one in the table, 1 in an empty table.\<close>

definition next_rowid :: "row list \<Rightarrow> nat" where
  "next_rowid conn = Suc (foldr max (map rowid conn) 0)"

definition insert_log :: "string \<Rightarrow> string \<Rightarrow> string \<Rightarrow> string \<Rightarrow> row list \<Rightarrow> row list" where
  "insert_log t n c p conn =
     conn @ [\<lparr>rowid = next_rowid conn, TIME = t, NODE = n, COMPONENT = c, PAYLOAD = p\<rparr>]"

text \<open>The fields of the record are read from the split line by position: fields 3, 4
  and 5 for time format 1, fields 1, 2 and 3 for time format 2.\<close>

definition make_record ::
  "datetime \<Rightarrow> string list \<Rightarrow> nat \<Rightarrow> row list \<Rightarrow> error + row list" where
  "make_record t newline i conn =
     (case index newline i of Inl e \<Rightarrow> Inl e | Inr n \<Rightarrow>
      (case index newline (i + 1) of Inl e \<Rightarrow> Inl e | Inr c \<Rightarrow>
       (case index newline (i + 2) of Inl e \<Rightarrow> Inl e | Inr p \<Rightarrow>
          Inr (insert_log (str_datetime t) n (strip ''/'' (strip '':'' c)) p conn))))"

definition whitespace :: "item list" where
  "whitespace = [Plus is_space]"

definition pid_decoration :: "item list" where
  "pid_decoration = lit ''['' @ [Star is_digit] @ lit '']''"

definition parse_log_line :: "nat \<Rightarrow> string \<Rightarrow> string \<Rightarrow> row list \<Rightarrow> error + row list" where
  "parse_log_line now_year logline logtype conn =
     (case (if logtype = ''s'' then Inr system_log_keywords
            else if logtype = ''p'' then Inr pacemaker_log_keywords
            else Inl SysExit) of
        Inl e \<Rightarrow> Inl e
      | Inr pattern \<Rightarrow>
          if keyword_search pattern logline then
            let logline = re_sub_once pid_decoration logline in
            (case format_timestamp_from_logline now_year logline of
               Inl e \<Rightarrow> Inl e
             | Inr None \<Rightarrow> Inr conn
             | Inr (Some (t, kind)) \<Rightarrow>
                 if kind = 1 then make_record t (re_split whitespace 5 logline) 3 conn
                 else if kind = 2 then make_record t (re_split whitespace 3 logline) 1 conn
                 else Inl UnboundLocalError)
          else Inr conn)"

text \<open>The loop of \<open>logfile_parser\<close> and \<open>compressed_file_parser\<close> over the lines of one
  file: an exception of one line ends it.\<close>

fun parse_lines :: "nat \<Rightarrow> string list \<Rightarrow> string \<Rightarrow> row list \<Rightarrow> error + row list" where
  "parse_lines now_year [] logtype conn = Inr conn"
| "parse_lines now_year (line # lines) logtype conn =
     (case parse_log_line now_year line logtype conn of
        Inl e \<Rightarrow> Inl e
      | Inr conn' \<Rightarrow> parse_lines now_year lines logtype conn')"


subsection \<open>logfile_parser\<close>

text \<open>A log file is the list of its lines, \<open>None\<close> when it cannot be opened or read: the
  OSError is caught and the next file is read. Every other exception leaves the loop.\<close>

fun logfile_parser ::
  "nat \<Rightarrow> string list option list \<Rightarrow> string \<Rightarrow> row list \<Rightarrow> error + row list" where
  "logfile_parser now_year [] log_type conn = Inr conn"
| "logfile_parser now_year (log # files) log_type conn =
     (case log of
        None \<Rightarrow> logfile_parser now_year files log_type conn
      | Some lines \<Rightarrow>
          (case parse_lines now_year lines log_type conn of
             Inl e \<Rightarrow> Inl e
           | Inr conn' \<Rightarrow> logfile_parser now_year files log_type conn'))"

subsection \<open>format_timestamp_from_timeinput\<close>

text \<open>
  The begin and end timestamps of the command line: \<open>YYYY-MM-DD-HH:MM\<close>, found by
  \<open>\d{4}-\d\d-\d\d-\d\d:\d\d\<close> and converted with \<open>%Y-%m-%d-%H:%M\<close>, or \<open>YYYY-MM-DD\<close>,
  found by \<open>\d{4}-\d\d-\d\d\<close> and converted with \<open>%Y-%m-%d\<close>. The pattern is searched
  in the argument, the conversion is of the whole argument. A ValueError and an argument
  in neither format end the run.
\<close>

definition date_re :: "item list" where
  "date_re = replicate 4 (One is_digit) @ lit ''-'' @ [One is_digit, One is_digit] @ lit ''-''
     @ [One is_digit, One is_digit]"

definition date_time_re :: "item list" where
  "date_time_re = date_re @ lit ''-'' @ [One is_digit, One is_digit] @ lit '':''
     @ [One is_digit, One is_digit]"

definition strptime_date_time :: "string \<Rightarrow> datetime option" where
  "strptime_date_time data = do {
     (gY, s1) \<leftarrow> dir_Y data;
     s2 \<leftarrow> chr (CHR ''-'') s1;
     (gm, s3) \<leftarrow> dir_m s2;
     s4 \<leftarrow> chr (CHR ''-'') s3;
     (gd, s5) \<leftarrow> dir_d s4;
     s6 \<leftarrow> chr (CHR ''-'') s5;
     (gH, s7) \<leftarrow> dir_H s6;
     s8 \<leftarrow> chr (CHR '':'') s7;
     (gM, s9) \<leftarrow> dir_M s8;
     if s9 = [] then
       new_datetime (py_int gY) (py_int gm) (py_int gd) (py_int gH) (py_int gM) 0
     else None
   }"

definition strptime_date :: "string \<Rightarrow> datetime option" where
  "strptime_date data = do {
     (gY, s1) \<leftarrow> dir_Y data;
     s2 \<leftarrow> chr (CHR ''-'') s1;
     (gm, s3) \<leftarrow> dir_m s2;
     s4 \<leftarrow> chr (CHR ''-'') s3;
     (gd, s5) \<leftarrow> dir_d s4;
     if s5 = [] then new_datetime (py_int gY) (py_int gm) (py_int gd) 0 0 0 else None
   }"

definition format_timestamp_from_timeinput :: "string \<Rightarrow> error + datetime" where
  "format_timestamp_from_timeinput time =
     (if re_search date_time_re time \<noteq> None then
        (case strptime_date_time time of Some t \<Rightarrow> Inr t | None \<Rightarrow> Inl SysExit)
      else if re_search date_re time \<noteq> None then
        (case strptime_date time of Some t \<Rightarrow> Inr t | None \<Rightarrow> Inl SysExit)
      else Inl SysExit)"

section \<open>The query\<close>

subsection \<open>LIKE\<close>

text \<open>
  In a LIKE pattern \<open>%\<close> stands for any text, also the empty one, \<open>_\<close> for any single
  character, and the character after the ESCAPE character for itself. Letters of ASCII
  match without regard to case.
\<close>

datatype like_tok = AnyText | AnyChar | Ch char

definition like_tok_of :: "char \<Rightarrow> like_tok" where
  "like_tok_of c = (if c = CHR ''%'' then AnyText else if c = CHR ''_'' then AnyChar else Ch c)"

fun like_tokens :: "char option \<Rightarrow> string \<Rightarrow> like_tok list" where
  "like_tokens esc [] = []"
| "like_tokens esc [c] = [like_tok_of c]"
| "like_tokens esc (c # d # cs) =
     (if esc = Some c then Ch d # like_tokens esc cs
      else like_tok_of c # like_tokens esc (d # cs))"

fun like_match :: "like_tok list \<Rightarrow> string \<Rightarrow> bool" where
  "like_match [] s = (s = [])"
| "like_match (Ch c # r) [] = False"
| "like_match (Ch c # r) (x # xs) = (if lower_code x = lower_code c then like_match r xs else False)"
| "like_match (AnyChar # r) [] = False"
| "like_match (AnyChar # r) (x # xs) = like_match r xs"
| "like_match (AnyText # r) [] = like_match r []"
| "like_match (AnyText # r) (x # xs) =
     (if like_match r (x # xs) then True else like_match (AnyText # r) xs)"

text \<open>LIKE reads its two texts as strings that end at the first NUL character, although
  the column holds the text that follows a NUL as well.\<close>

definition c_text :: "string \<Rightarrow> string" where
  "c_text s = takeWhile (\<lambda>c. c \<noteq> CHR 0x00) s"

definition like :: "string \<Rightarrow> string \<Rightarrow> bool" where
  "like s pattern = like_match (like_tokens None (c_text pattern)) (c_text s)"

definition like_escape :: "string \<Rightarrow> string \<Rightarrow> char \<Rightarrow> bool" where
  "like_escape s pattern esc = like_match (like_tokens (Some esc) (c_text pattern)) (c_text s)"

subsection \<open>The eight SELECT statements\<close>

text \<open>Fencing actions and results, stonith timeout.\<close>

definition sql1 :: "row \<Rightarrow> bool" where
  "sql1 r = (like_escape (PAYLOAD r) ''%$*%FENCE%'' (CHR ''$'')
     \<or> like (PAYLOAD r) ''%remote_op_done%Operation%''
     \<or> like (PAYLOAD r) ''%monitor%Timer%expired%'')"

text \<open>Pacemaker actions for resources, CRMD critical logs, high CPU load.\<close>

definition sql2 :: "row \<Rightarrow> bool" where
  "sql2 r = (like (PAYLOAD r) ''%notice%LogAction%'' \<or> like (PAYLOAD r) ''%(LogAction)%''
     \<or> like (PAYLOAD r) ''%crit:%'' \<or> like (PAYLOAD r) ''%Forcing%away%''
     \<or> like (PAYLOAD r) ''%cannot%run%anywhere%''
     \<or> like (PAYLOAD r) ''%attrd_peer_update%INFINITY%''
     \<or> like (PAYLOAD r) ''%CPU%detected%'')"

text \<open>Corosync error or membership change.\<close>

definition sql3 :: "row \<Rightarrow> bool" where
  "sql3 r = (like (PAYLOAD r) ''%TOTEM%''
     \<and> (like (PAYLOAD r) ''%failed%'' \<or> like (PAYLOAD r) ''%membership%''
        \<or> like (PAYLOAD r) ''%Retransmit%''))"

text \<open>Failed resource operations.\<close>

definition sql4 :: "row \<Rightarrow> bool" where
  "sql4 r = (like (PAYLOAD r) ''%Result%of%operation%'' \<and> \<not> like (PAYLOAD r) ''%ok%''
     \<and> \<not> like (PAYLOAD r) ''%Cancelled%'' \<and> \<not> like (PAYLOAD r) ''%probe%'')"

text \<open>SAPInstance, gcp:stonith, gcp:alias, gcp-vpc-move-vip, fence_gce error.\<close>

definition sql5 :: "row \<Rightarrow> bool" where
  "sql5 r = ((like (COMPONENT r) ''SAPInstance%''
        \<or> COMPONENT r \<in> set [''stonith-ng'', ''gcp:stonith'', ''gcp:alias'',
                               ''gcp-vpc-move-vip'', ''fence_gce''])
     \<and> (like (PAYLOAD r) ''%ERROR%'' \<or> like (PAYLOAD r) ''%Failed%''))"

text \<open>SAPHANA error or warning.\<close>

definition sql6 :: "row \<Rightarrow> bool" where
  "sql6 r = (like (COMPONENT r) ''SAPHana%''
     \<and> (like (PAYLOAD r) ''%ERROR:%'' \<or> like (PAYLOAD r) ''%WARNING:%''
        \<or> like (PAYLOAD r) ''%ACT%SFAIL%''))"

text \<open>Cluster, node and resource maintenance, standby and manage mode change.\<close>

definition sql7 :: "row \<Rightarrow> bool" where
  "sql7 r = (like (PAYLOAD r) ''%cib-bootstrap-options-maintenance-mode%value%''
     \<or> like (PAYLOAD r) ''%cib_perform_op%nodes-%-maintenance%''
     \<or> like (PAYLOAD r) ''%cib_perform_op%nodes-%-standby%''
     \<or> like (PAYLOAD r) ''%cib_perform_op%meta_attributes-%'')"

text \<open>Location constraint cli-ban or cli-prefer due to manual resource movement.\<close>

definition sql8 :: "row \<Rightarrow> bool" where
  "sql8 r = (like (PAYLOAD r) ''%cli-ban%'' \<or> like (PAYLOAD r) ''%cli-prefer%'')"

definition sql :: "(row \<Rightarrow> bool) list" where
  "sql = [sql1, sql2, sql3, sql4, sql5, sql6, sql7, sql8]"

subsection \<open>The assembled statement\<close>

text \<open>
  The string that filters column TIME: \<open>WHERE TIME > 'begin'\<close>, \<open>AND TIME < 'end'\<close>,
  with the bounds written by \<open>str\<close>; no filter when neither bound is given. TIME is a
  TEXT column, so the comparison is that of the texts, character by character.
\<close>

definition time_filter :: "datetime option \<Rightarrow> datetime option \<Rightarrow> (row \<Rightarrow> bool) option" where
  "time_filter date_begin date_end =
     (case date_begin of
        Some b \<Rightarrow>
          (case date_end of
             Some e \<Rightarrow> Some (\<lambda>r. TIME r > str_datetime b \<and> TIME r < str_datetime e)
           | None \<Rightarrow> Some (\<lambda>r. TIME r > str_datetime b))
      | None \<Rightarrow>
          (case date_end of
             Some e \<Rightarrow> Some (\<lambda>r. TIME r < str_datetime e)
           | None \<Rightarrow> None))"

text \<open>With a filter the SELECT statements read the table expression \<open>data\<close>, the rows of
  \<open>log\<close> that pass the filter; without one they read \<open>log\<close> itself.\<close>

definition data :: "datetime option \<Rightarrow> datetime option \<Rightarrow> row list \<Rightarrow> row list" where
  "data date_begin date_end log =
     (case time_filter date_begin date_end of Some f \<Rightarrow> filter f log | None \<Rightarrow> log)"

text \<open>The UNION of the eight SELECT statements keeps one copy of each row (rowid, TIME,
  NODE, COMPONENT, PAYLOAD); ORDER BY TIME, rowid sorts them.\<close>

definition union_ordered :: "datetime option \<Rightarrow> datetime option \<Rightarrow> row list \<Rightarrow> row list" where
  "union_ordered date_begin date_end log =
     sort_key (\<lambda>r. (TIME r, rowid r))
       (remdups (concat (map (\<lambda>s. filter s (data date_begin date_end log)) sql)))"

text \<open>The outer SELECT returns TIME, NODE, COMPONENT, PAYLOAD of these rows, in their
  order.\<close>

definition sql_query ::
  "datetime option \<Rightarrow> datetime option \<Rightarrow> row list \<Rightarrow> (string \<times> string \<times> string \<times> string) list" where
  "sql_query date_begin date_end log =
     map (\<lambda>r. (TIME r, NODE r, COMPONENT r, PAYLOAD r)) (union_ordered date_begin date_end log)"

subsection \<open>logparser\<close>

text \<open>The run on system logs and pacemaker logs: the system logs are parsed first, then
  the pacemaker logs, then the statement is executed on the table and its rows are
  written out.\<close>

definition logparser ::
  "nat \<Rightarrow> string list option list \<Rightarrow> string list option list \<Rightarrow> datetime option
     \<Rightarrow> datetime option \<Rightarrow> error + (string \<times> string \<times> string \<times> string) list" where
  "logparser now_year system_log pacemaker_log date_begin date_end =
     (case logfile_parser now_year system_log ''s'' [] of
        Inl e \<Rightarrow> Inl e
      | Inr conn \<Rightarrow>
          (case logfile_parser now_year pacemaker_log ''p'' conn of
             Inl e \<Rightarrow> Inl e
           | Inr conn' \<Rightarrow> Inr (sql_query date_begin date_end conn')))"

section \<open>What the specification says\<close>

text \<open>The open time window of the specification: strictly after the begin bound and
  strictly before the end bound, where given.\<close>

definition strictly_within :: "datetime option \<Rightarrow> datetime option \<Rightarrow> row \<Rightarrow> bool" where
  "strictly_within date_begin date_end r =
     ((case date_begin of Some b \<Rightarrow> str_datetime b < TIME r | None \<Rightarrow> True)
      \<and> (case date_end of Some e \<Rightarrow> TIME r < str_datetime e | None \<Rightarrow> True))"

text \<open>A critical event of the specification: a record that one of the rules R1 to R8
  matches.\<close>

definition critical :: "row \<Rightarrow> bool" where
  "critical r = (sql1 r \<or> sql2 r \<or> sql3 r \<or> sql4 r \<or> sql5 r \<or> sql6 r \<or> sql7 r \<or> sql8 r)"

text \<open>The order of time on timestamps, and the timestamps whose fields fill the columns
  of \<open>YYYY-MM-DD HH:MM:SS\<close> exactly.\<close>

definition before :: "datetime \<Rightarrow> datetime \<Rightarrow> bool" where
  "before a b = ((year a, month a, day a, hour a, minute a, second a)
                  < (year b, month b, day b, hour b, minute b, second b))"

definition fits :: "datetime \<Rightarrow> bool" where
  "fits t = (year t < 10000 \<and> month t < 100 \<and> day t < 100 \<and> hour t < 100 \<and> minute t < 100
     \<and> second t < 100)"

text \<open>A table whose TIME texts are timestamps written by \<open>str\<close>.\<close>

definition stamped :: "row list \<Rightarrow> bool" where
  "stamped conn = (\<forall>r\<in>set conn. \<exists>t. fits t \<and> TIME r = str_datetime t)"




section \<open>Test data\<close>

definition example_begin :: datetime where
  "example_begin = \<lparr>year = 2021, month = 1, day = 1, hour = 0, minute = 0, second = 0\<rparr>"

definition example_end :: datetime where
  "example_end = \<lparr>year = 2021, month = 1, day = 2, hour = 0, minute = 0, second = 0\<rparr>"

definition example_row :: "nat \<Rightarrow> string \<Rightarrow> row" where
  "example_row i t =
     \<lparr>rowid = i, TIME = t, NODE = ''node1'', COMPONENT = ''pacemaker-controld'',
      PAYLOAD = ''crit: remote_op_done: Operation reboot''\<rparr>"

definition example_log :: "row list" where
  "example_log = [example_row 1 ''2020-12-31 00:00:00'', example_row 2 ''2021-01-01 00:00:00'',
                  example_row 3 ''2021-01-01 12:00:00'', example_row 4 ''2021-01-02 00:00:00'']"

text \<open>Two records with the same field values, and one that no rule matches.\<close>

definition example_twins :: "row list" where
  "example_twins = [example_row 1 ''2021-01-01 12:00:00'', example_row 2 ''2021-01-01 12:00:00'',
                    \<lparr>rowid = 3, TIME = ''2021-01-01 12:00:00'', NODE = ''node1'',
                     COMPONENT = ''pacemaker-controld'', PAYLOAD = ''ok''\<rparr>]"

text \<open>The fencing line of the end-to-end scenarios, a truncated line, and lines whose
  timestamps have month 13 and hour 25.\<close>

definition fencing_line :: string where
  "fencing_line = ''Jan 5 10:00:00 node1 stonith-ng: notice: remote_op_done: Operation 'reboot' targeting node2 by node1 for ...: OK''"

definition fencing_payload :: string where
  "fencing_payload = ''notice: remote_op_done: Operation 'reboot' targeting node2 by node1 for ...: OK''"

definition truncated_line :: string where
  "truncated_line = ''Jan 5 10:00:00 reboot'' @ [CHR 0x0A]"

definition month13_line :: string where
  "month13_line = ''2021-13-05T10:00:00 node1 stonith-ng: reboot'' @ [CHR 0x0A]"

definition hour25_line :: string where
  "hour25_line = ''Jan 5 25:00:00 node1 stonith-ng: reboot'' @ [CHR 0x0A]"


text \<open>A line that names a cli-prefer constraint and holds no branch of the pacemaker
  keyword pattern.\<close>

definition cli_prefer_line :: string where
  "cli_prefer_line = ''Jan 5 10:00:00 node1 crmd: cli-prefer-rsc_ip node2'' @ [CHR 0x0A]"

section \<open>The time window and the union\<close>

lemma data_filter: "data b e log = filter (strictly_within b e) log"
  by (cases b; cases e) (auto simp: data_def time_filter_def strictly_within_def intro!: filter_cong)

lemma critical_sql: "critical r = (\<exists>s\<in>set sql. s r)"
  by (simp add: critical_def sql_def)

lemma set_union_ordered:
  "set (union_ordered b e log) = {r \<in> set log. strictly_within b e r \<and> critical r}"
  by (auto simp: union_ordered_def data_filter critical_sql)

lemma distinct_union_ordered: "distinct (union_ordered b e log)"
  by (simp add: union_ordered_def)

lemma sorted_union_ordered: "sorted (map (\<lambda>r. (TIME r, rowid r)) (union_ordered b e log))"
  by (simp add: union_ordered_def)

lemma count_list_map_filter: "count_list (map f xs) y = length (filter (\<lambda>x. f x = y) xs)"
  by (induction xs) auto

lemma length_filter_card: "distinct xs \<Longrightarrow> length (filter P xs) = card {x \<in> set xs. P x}"
  by (simp add: distinct_length_filter Collect_conj_eq Int_commute)

lemma example_bounds:
  "str_datetime example_begin = ''2021-01-01 00:00:00''"
  "str_datetime example_end = ''2021-01-02 00:00:00''"
  by code_simp+

lemmas like_defs = like_def like_escape_def c_text_def like_tok_of_def lower_code_def code_def

lemmas sql_defs = sql1_def sql2_def sql3_def sql4_def sql5_def sql6_def sql7_def sql8_def

lemma example_critical: "critical (example_row i t)"
  by (simp add: critical_def sql2_def example_row_def like_defs)

text \<open>
  C1. A stored record is in the result of the classification query exactly when it lies
  strictly after the begin bound (if one is given), strictly before the end bound (if one
  is given), and one of the eight SELECT statements matches it. So a record whose
  timestamp equals a bound is left out, and without bounds every stored record is put
  to the rules. The timestamps are compared as the texts that \<open>str\<close> writes, which is the
  comparison of the times (lemma \<open>str_datetime_less\<close> below).
\<close>

theorem window_open_on_both_ends:
  "r \<in> set (union_ordered date_begin date_end log) \<longleftrightarrow>
     r \<in> set log
     \<and> (\<forall>b. date_begin = Some b \<longrightarrow> str_datetime b < TIME r)
     \<and> (\<forall>e. date_end = Some e \<longrightarrow> TIME r < str_datetime e)
     \<and> (\<exists>s\<in>set sql. s r)"
  by (cases date_begin; cases date_end)
     (auto simp: set_union_ordered strictly_within_def critical_sql)

theorem window_open_on_both_ends_witness:
  "example_row 3 ''2021-01-01 12:00:00''
     \<in> set (union_ordered (Some example_begin) (Some example_end) example_log)
   \<and> example_row 2 ''2021-01-01 00:00:00''
     \<notin> set (union_ordered (Some example_begin) (Some example_end) example_log)
   \<and> example_row 4 ''2021-01-02 00:00:00''
     \<notin> set (union_ordered (Some example_begin) (Some example_end) example_log)
   \<and> example_row 4 ''2021-01-02 00:00:00'' \<in> set (union_ordered None None example_log)"
proof -
  have c: "\<exists>s\<in>set sql. s (example_row i t)" for i t
    using example_critical [of i t] by (simp add: critical_sql)
  have "example_row 3 ''2021-01-01 12:00:00''
     \<in> set (union_ordered (Some example_begin) (Some example_end) example_log)"
    by (rule window_open_on_both_ends [THEN iffD2])
       (simp add: c example_bounds example_log_def, simp add: example_row_def)
  moreover have "example_row 2 ''2021-01-01 00:00:00''
     \<notin> set (union_ordered (Some example_begin) (Some example_end) example_log)"
    using window_open_on_both_ends [of "example_row 2 ''2021-01-01 00:00:00''" "Some example_begin"
        "Some example_end" example_log]
    by (simp add: example_bounds example_row_def)
  moreover have "example_row 4 ''2021-01-02 00:00:00''
     \<notin> set (union_ordered (Some example_begin) (Some example_end) example_log)"
    using window_open_on_both_ends [of "example_row 4 ''2021-01-02 00:00:00''" "Some example_begin"
        "Some example_end" example_log]
    by (simp add: example_bounds example_row_def)
  moreover have "example_row 4 ''2021-01-02 00:00:00'' \<in> set (union_ordered None None example_log)"
    by (rule window_open_on_both_ends [THEN iffD2]) (simp add: c example_log_def)
  ultimately show ?thesis by blast
qed

text \<open>
  C2. The result holds a tuple (TIME, NODE, COMPONENT, PAYLOAD) once for each stored
  record that has these field values, lies in the window and is matched by a rule: a
  record that several rules match is there once, and records with equal field values
  are each there. Records are told apart by their rowids.
\<close>

theorem union_keeps_each_record_once:
  assumes "distinct (map rowid log)"
  shows "count_list (sql_query date_begin date_end log) (t, n, c, p) =
     length (filter (\<lambda>r. TIME r = t \<and> NODE r = n \<and> COMPONENT r = c \<and> PAYLOAD r = p
        \<and> strictly_within date_begin date_end r \<and> critical r) log)"
proof -
  let ?same = "\<lambda>r. (TIME r, NODE r, COMPONENT r, PAYLOAD r) = (t, n, c, p)"
  let ?U = "union_ordered date_begin date_end log"
  have dl: "distinct log"
    using assms by (rule distinct_map [THEN iffD1, THEN conjunct1])
  have "count_list (sql_query date_begin date_end log) (t, n, c, p) = length (filter ?same ?U)"
    by (simp add: sql_query_def count_list_map_filter)
  also have "\<dots> = card {r \<in> set ?U. ?same r}"
    by (rule length_filter_card) (rule distinct_union_ordered)
  also have "{r \<in> set ?U. ?same r} =
     {r \<in> set log. TIME r = t \<and> NODE r = n \<and> COMPONENT r = c \<and> PAYLOAD r = p
        \<and> strictly_within date_begin date_end r \<and> critical r}"
    by (auto simp: set_union_ordered)
  also have "card \<dots> = length (filter (\<lambda>r. TIME r = t \<and> NODE r = n \<and> COMPONENT r = c
        \<and> PAYLOAD r = p \<and> strictly_within date_begin date_end r \<and> critical r) log)"
    by (rule length_filter_card [symmetric]) (rule dl)
  finally show ?thesis .
qed

theorem union_keeps_each_record_once_witness:
  "sql1 (example_row 1 ''2021-01-01 12:00:00'') \<and> sql2 (example_row 1 ''2021-01-01 12:00:00'')
   \<and> count_list (sql_query None None example_twins)
        (''2021-01-01 12:00:00'', ''node1'', ''pacemaker-controld'',
         ''crit: remote_op_done: Operation reboot'') = 2"
proof -
  have d: "distinct (map rowid example_twins)"
    by (simp add: example_twins_def example_row_def)
  have r: "sql1 (example_row 1 ''2021-01-01 12:00:00'') \<and> sql2 (example_row 1 ''2021-01-01 12:00:00'')"
    by (simp add: sql1_def sql2_def example_row_def like_defs)
  have n: "\<not> critical \<lparr>rowid = 3, TIME = ''2021-01-01 12:00:00'', NODE = ''node1'',
      COMPONENT = ''pacemaker-controld'', PAYLOAD = ''ok''\<rparr>"
    by (simp add: critical_def sql_defs like_defs)
  have "length (filter (\<lambda>r. TIME r = ''2021-01-01 12:00:00'' \<and> NODE r = ''node1''
      \<and> COMPONENT r = ''pacemaker-controld'' \<and> PAYLOAD r = ''crit: remote_op_done: Operation reboot''
      \<and> strictly_within None None r \<and> critical r) example_twins) = 2"
    by (simp add: example_twins_def example_critical strictly_within_def n)
       (simp add: example_row_def)
  with r union_keeps_each_record_once [OF d, of None None "''2021-01-01 12:00:00''" "''node1''"
        "''pacemaker-controld''" "''crit: remote_op_done: Operation reboot''"]
  show ?thesis by (simp only:)
qed

text \<open>
  C9. The range query, the table expression \<open>data\<close> of the statement, returns the
  records strictly after the begin bound and strictly before the end bound, either bound
  omissible: a record at the begin bound is not returned.
\<close>

theorem data_open_range:
  "data date_begin date_end log =
     filter (\<lambda>r. (\<forall>b. date_begin = Some b \<longrightarrow> str_datetime b < TIME r)
               \<and> (\<forall>e. date_end = Some e \<longrightarrow> TIME r < str_datetime e)) log"
  by (cases date_begin; cases date_end)
     (auto simp: data_filter strictly_within_def intro!: filter_cong)

theorem data_open_range_witness:
  "data (Some example_begin) (Some example_end) example_log = [example_row 3 ''2021-01-01 12:00:00'']"
  unfolding data_open_range
  by (simp add: example_bounds example_log_def example_row_def)

theorem data_closed_at_begin_counterexample:
  "str_datetime example_begin \<le> TIME (example_row 2 ''2021-01-01 00:00:00'')
   \<and> TIME (example_row 2 ''2021-01-01 00:00:00'') < str_datetime example_end
   \<and> example_row 2 ''2021-01-01 00:00:00'' \<in> set example_log
   \<and> example_row 2 ''2021-01-01 00:00:00''
       \<notin> set (data (Some example_begin) (Some example_end) example_log)"
  by (simp add: example_bounds example_log_def example_row_def data_def time_filter_def)

section \<open>Order of the result\<close>

lemma split_at_two:
  assumes "a < b" "b < length xs"
  shows "\<exists>ps ms ss. xs = ps @ xs ! a # ms @ xs ! b # ss"
proof -
  have 1: "xs = take b xs @ xs ! b # drop (Suc b) xs"
    using assms by (simp add: id_take_nth_drop)
  have "a < length (take b xs)" using assms by simp
  then have 2: "take b xs = take a (take b xs) @ take b xs ! a # drop (Suc a) (take b xs)"
    by (rule id_take_nth_drop)
  have 3: "take b xs ! a = xs ! a" using assms by simp
  have "xs = (take a (take b xs) @ xs ! a # drop (Suc a) (take b xs)) @ xs ! b # drop (Suc b) xs"
    using 1 2 3 by metis
  then have "xs = take a (take b xs) @ xs ! a # drop (Suc a) (take b xs) @ xs ! b # drop (Suc b) xs"
    by simp
  then show ?thesis by blast
qed

text \<open>Ingestion numbers the rows in the order of insertion.\<close>

lemma next_rowid_greater: "r \<in> set conn \<Longrightarrow> rowid r < next_rowid conn"
  by (induction conn) (auto simp: next_rowid_def less_Suc_eq_le max_def)

lemma insert_log_rowids:
  "sorted_wrt (<) (map rowid conn) \<Longrightarrow> sorted_wrt (<) (map rowid (insert_log t n c p conn))"
  by (auto simp: insert_log_def sorted_wrt_append next_rowid_greater)

lemma make_record_rowids:
  "make_record t newline i conn = Inr conn' \<Longrightarrow> sorted_wrt (<) (map rowid conn) \<Longrightarrow>
   sorted_wrt (<) (map rowid conn')"
  by (auto simp: make_record_def insert_log_rowids split: sum.splits)

lemma parse_log_line_rowids:
  "parse_log_line y logline logtype conn = Inr conn' \<Longrightarrow> sorted_wrt (<) (map rowid conn) \<Longrightarrow>
   sorted_wrt (<) (map rowid conn')"
  by (auto simp: parse_log_line_def Let_def make_record_rowids
           split: if_splits sum.splits option.splits)

lemma parse_lines_rowids:
  "parse_lines y lines logtype conn = Inr conn' \<Longrightarrow> sorted_wrt (<) (map rowid conn) \<Longrightarrow>
   sorted_wrt (<) (map rowid conn')"
  by (induction lines arbitrary: conn) (auto split: sum.splits dest: parse_log_line_rowids)

lemma rowids_distinct: "sorted_wrt (<) (map rowid log) \<Longrightarrow> distinct (map rowid log)"
  using strict_sorted_iff by blast

text \<open>
  C3. The rows of the result are in ascending order of (TIME, rowid). In a table whose
  rowids grow in the order of insertion, as ingestion builds it, two records of the result
  with the same timestamp keep the order of their insertion.
\<close>

theorem result_ordered_by_time_then_insertion:
  assumes inv: "sorted_wrt (<) (map rowid log)"
  shows "sorted (map (\<lambda>r. (TIME r, rowid r)) (union_ordered date_begin date_end log)) \<and>
    (\<forall>i j. i < j \<and> j < length log \<and> TIME (log ! i) = TIME (log ! j)
        \<and> log ! i \<in> set (union_ordered date_begin date_end log)
        \<and> log ! j \<in> set (union_ordered date_begin date_end log)
      \<longrightarrow> (\<exists>ps ms ss. union_ordered date_begin date_end log = ps @ log ! i # ms @ log ! j # ss))"
proof (intro conjI allI impI)
  show "sorted (map (\<lambda>r. (TIME r, rowid r)) (union_ordered date_begin date_end log))"
    by (rule sorted_union_ordered)
next
  fix i j
  let ?U = "union_ordered date_begin date_end log"
  assume h: "i < j \<and> j < length log \<and> TIME (log ! i) = TIME (log ! j)
        \<and> log ! i \<in> set ?U \<and> log ! j \<in> set ?U"
  then have lt: "rowid (log ! i) < rowid (log ! j)"
    using inv by (simp add: sorted_wrt_iff_nth_less)
  from h obtain a where a: "a < length ?U" "?U ! a = log ! i"
    by (auto simp: in_set_conv_nth)
  from h obtain c where c: "c < length ?U" "?U ! c = log ! j"
    by (auto simp: in_set_conv_nth)
  have ne: "a \<noteq> c" using a c lt by auto
  have "\<not> c < a"
  proof
    assume "c < a"
    then have "map (\<lambda>r. (TIME r, rowid r)) ?U ! c \<le> map (\<lambda>r. (TIME r, rowid r)) ?U ! a"
      using sorted_union_ordered [of date_begin date_end log] a(1)
      by (simp add: sorted_iff_nth_mono del: nth_map)
    then have "(TIME (log ! j), rowid (log ! j)) \<le> (TIME (log ! i), rowid (log ! i))"
      using a c by simp
    then show False using h lt by (simp add: less_eq_prod_def)
  qed
  then have "a < c" using ne by simp
  from split_at_two [OF this c(1)] a c
  show "\<exists>ps ms ss. ?U = ps @ log ! i # ms @ log ! j # ss" by simp
qed

theorem result_ordered_by_time_then_insertion_witness:
  "sorted_wrt (<) (map rowid example_twins)
   \<and> TIME (example_twins ! 0) = TIME (example_twins ! 1)
   \<and> (\<exists>ps ms ss. union_ordered None None example_twins
         = ps @ example_twins ! 0 # ms @ example_twins ! 1 # ss)"
proof -
  have inv: "sorted_wrt (<) (map rowid example_twins)"
    by (simp add: example_twins_def example_row_def)
  have t: "TIME (example_twins ! 0) = TIME (example_twins ! 1)"
    by (simp add: example_twins_def example_row_def)
  have m: "example_twins ! 0 \<in> set (union_ordered None None example_twins)
      \<and> example_twins ! 1 \<in> set (union_ordered None None example_twins)"
    by (simp add: set_union_ordered strictly_within_def example_twins_def example_critical)
  have l: "(0::nat) < 1 \<and> 1 < length example_twins"
    by (simp add: example_twins_def)
  from result_ordered_by_time_then_insertion [OF inv, of None None, THEN conjunct2,
      rule_format, of 0 1] l t m inv
  show ?thesis by blast
qed

section \<open>Searching for literals and keywords\<close>


lemma match_here_lit:
  "match_here (lit k) s = (if prefix k s then Some (k, drop (length k) s) else None)"
proof (induction k arbitrary: s)
  case Nil
  then show ?case by (simp add: lit_def)
next
  case (Cons a k)
  then show ?case by (cases s) (auto simp: lit_def matched_def)
qed

lemma re_search_lit: "(re_search (lit k) s \<noteq> None) = sublist k s"
proof (induction s)
  case Nil
  then show ?case by (cases k) (auto simp: match_here_lit)
next
  case (Cons c s)
  then show ?case
    by (cases k) (auto simp: match_here_lit sublist_Cons_right split: option.splits)
qed

lemma keyword_search_iff:
  "keyword_search pattern logline = (\<exists>k\<in>set (alternatives pattern). sublist k logline)"
  unfolding keyword_search_def list_ex_iff re_search_lit ..

lemma pacemaker_alternatives:
  "alternatives pacemaker_log_keywords =
     [''LogAction'', ''LogNodeActions'', ''stonith-ng'', ''pacemaker-fenced'', ''crit:'',
      ''check_migration_threshold'', ''corosync'', ''Result of'', ''reboot'',
      ''cannot run anywhere'', ''attrd_peer_update'', ''High CPU load detected'', ''cli-ban'',
      ''cli-prefercib-bootstrap-options-maintenance-mode'', ''-is-managed'', ''-maintenance'',
      ''-standby'']"
  by (simp add: pacemaker_log_keywords_def backslash_def)

lemma system_alternatives:
  "alternatives system_log_keywords =
     [''SAPHana('', ''SAPHanaController('', ''SAPHanaTopology('', ''SAPInstance('',
      ''gcp-vpc-move-vip'', ''gcp:alias'', ''gcp:stonith'', ''fence_gce'', ''corosync['',
      ''Result of'', ''reboot'']"
  by (simp add: system_log_keywords_def backslash_def)

lemma code_digit_char: "d < 10 \<Longrightarrow> code (digit_char d) = 48 + d"
  by (simp add: code_def digit_char_def)

lemma is_digit_digit_char: "d < 10 \<Longrightarrow> is_digit (digit_char d)"
  by (simp add: is_digit_def code_digit_char)

lemma not_space_digit_char: "d < 10 \<Longrightarrow> \<not> is_space (digit_char d)"
  by (simp add: is_space_def code_digit_char)

lemma str_nat_year:
  assumes "1000 \<le> y" "y \<le> 9999"
  shows "str_nat y = [digit_char (y div 1000), digit_char (y div 100 mod 10),
                      digit_char (y div 10 mod 10), digit_char (y mod 10)]"
proof -
  have 1: "str_nat y = str_nat (y div 10) @ [digit_char (y mod 10)]"
    using assms by (subst str_nat.simps) simp
  have 2: "str_nat (y div 10) = str_nat (y div 100) @ [digit_char (y div 10 mod 10)]"
    using assms by (subst str_nat.simps) (simp add: div_mult2_eq [symmetric])
  have 3: "str_nat (y div 100) = str_nat (y div 1000) @ [digit_char (y div 100 mod 10)]"
    using assms by (subst str_nat.simps) (simp add: div_mult2_eq [symmetric])
  have 4: "str_nat (y div 1000) = [digit_char (y div 1000)]"
    using assms by (subst str_nat.simps) simp
  show ?thesis by (simp add: 1 2 3 4)
qed

lemma py_int_year:
  assumes "1000 \<le> y" "y \<le> 9999"
  shows "py_int (str_nat y) = y"
proof -
  have d: "y div 1000 < 10" "y div 100 mod 10 < 10" "y div 10 mod 10 < 10" "y mod 10 < 10"
    using assms by simp_all
  have "py_int (str_nat y) = 10 * (10 * (10 * (y div 1000) + y div 100 mod 10) + y div 10 mod 10) + y mod 10"
    using d by (simp add: str_nat_year [OF assms] py_int_def not_space_digit_char code_digit_char)
  also have "\<dots> = y"
  proof -
    have a: "y div 100 = y div 10 div 10" "y div 1000 = y div 10 div 10 div 10"
      by (simp_all add: div_mult2_eq [symmetric])
    show ?thesis unfolding a by (simp only: mult_div_mod_eq)
  qed
  finally show ?thesis .
qed

lemma dir_Y_year:
  assumes "1000 \<le> y" "y \<le> 9999"
  shows "dir_Y (str_nat y @ s) = Some (str_nat y, s)"
proof -
  have d: "y div 1000 < 10" "y div 100 mod 10 < 10" "y div 10 mod 10 < 10" "y mod 10 < 10"
    using assms by simp_all
  show ?thesis
    using d by (simp add: str_nat_year [OF assms] dir_Y_def is_digit_digit_char)
qed

lemma zfill_year:
  assumes "1000 \<le> y" "y \<le> 9999"
  shows "zfill 4 (str_nat y) = str_nat y"
  by (simp add: zfill_def str_nat_year [OF assms])



section \<open>Lines\<close>

lemmas class_defs = is_digit_def is_space_def is_word_def code_def

lemma time_format1_items:
  "time_format1 = [One is_word, One is_word, One is_word, Plus is_space, Plus is_digit,
     One is_space, One is_digit, One is_digit, One (\<lambda>x. x = CHR '':''), One is_digit,
     One is_digit, One (\<lambda>x. x = CHR '':''), One is_digit, One is_digit]"
  by (simp add: time_format1_def hms_re_def lit_def numeral_eq_Suc)

lemma time_format2_items:
  "time_format2 = [One is_digit, One is_digit, One is_digit, One is_digit,
     One (\<lambda>x. x = CHR ''-''), One is_digit, One is_digit, One (\<lambda>x. x = CHR ''-''),
     One is_digit, One is_digit, One (\<lambda>x. x = CHR ''T''), One is_digit, One is_digit,
     One (\<lambda>x. x = CHR '':''), One is_digit, One is_digit, One (\<lambda>x. x = CHR '':''),
     One is_digit, One is_digit]"
  by (simp add: time_format2_def hms_re_def lit_def numeral_eq_Suc)

lemmas re_defs = time_format1_items time_format2_items whitespace_def pid_decoration_def
  lit_def matched_def

lemma re_split_numeral:
  "re_split p (numeral k) s =
     (case re_search p s of Some (b, m, a) \<Rightarrow> b # re_split p (pred_numeral k) a | None \<Rightarrow> [s])"
  by (simp add: numeral_eq_Suc)

lemma re_split_Suc_0:
  "re_split p (Suc 0) s = (case re_search p s of Some (b, m, a) \<Rightarrow> [b, a] | None \<Rightarrow> [s])"
  by (simp split: option.splits)

lemma no_pid_decoration: "CHR ''['' \<notin> set s \<Longrightarrow> re_sub_once pid_decoration s = s"
proof -
  have "CHR ''['' \<notin> set s \<Longrightarrow> re_search pid_decoration s = None"
    by (induction s) (auto simp: pid_decoration_def lit_def)
  then show "CHR ''['' \<notin> set s \<Longrightarrow> re_sub_once pid_decoration s = s"
    by (simp add: re_sub_once_def)
qed

lemma fencing_line_sub: "re_sub_once pid_decoration fencing_line = fencing_line"
  by (rule no_pid_decoration) (simp add: fencing_line_def)

lemma fencing_line_time:
  "re_search time_format1 fencing_line = Some ([], ''Jan 5 10:00:00'', drop 14 fencing_line)"
  by (simp add: fencing_line_def re_defs class_defs)

lemma fencing_line_split:
  "re_split whitespace 5 fencing_line =
     [''Jan'', ''5'', ''10:00:00'', ''node1'', ''stonith-ng:'', fencing_payload]"
  by (simp add: fencing_line_def fencing_payload_def re_split_numeral re_split_Suc_0 whitespace_def
      matched_def is_space_def code_def)

lemmas dir_defs = ws_def dir_b_def dir_d_def dir_m_def dir_H_def dir_M_def dir_S_def chr_def one_def
  two_def rng_def same_nocase_def lower_code_def month_abbr_def month_of_abbr_def
  new_datetime_def days_in_month_def

lemma strptime_jan5:
  assumes "1000 \<le> y" "y \<le> 9999"
  shows "strptime_format1 (str_nat y @ '' '' @ ''Jan 5 10:00:00'') =
     Some \<lparr>year = y, month = 1, day = 5, hour = 10, minute = 0, second = 0\<rparr>"
proof -
  have v: "py_int ''5'' = 5" "py_int ''10'' = 10" "py_int ''00'' = 0"
    by (simp_all add: py_int_def class_defs)
  show ?thesis
    using assms
    by (simp add: strptime_format1_def dir_Y_year py_int_year v dir_defs class_defs)
qed

lemma fencing_line_timestamp:
  assumes "1000 \<le> y" "y \<le> 9999"
  shows "format_timestamp_from_logline y fencing_line =
     Inr (Some (\<lparr>year = y, month = 1, day = 5, hour = 10, minute = 0, second = 0\<rparr>, 1))"
  using strptime_jan5 [OF assms]
  by (simp add: format_timestamp_from_logline_def fencing_line_time)

lemma str_datetime_jan5:
  assumes "1000 \<le> y" "y \<le> 9999"
  shows "str_datetime \<lparr>year = y, month = 1, day = 5, hour = 10, minute = 0, second = 0\<rparr>
     = str_nat y @ ''-01-05 10:00:00''"
proof -
  have z: "zfill 2 (str_nat (Suc 0)) = ''01''" "zfill 2 (str_nat 5) = ''05''"
    "zfill 2 (str_nat 10) = ''10''" "zfill 2 (str_nat 0) = ''00''"
    by code_simp+
  show ?thesis by (simp add: str_datetime_def zfill_year [OF assms] z)
qed

lemma fencing_line_keywords:
  "keyword_search pacemaker_log_keywords fencing_line"
  "keyword_search system_log_keywords fencing_line"
proof -
  have 1: "sublist ''stonith-ng'' fencing_line"
    by (simp add: fencing_line_def sublist_Cons_right)
  have 2: "sublist ''reboot'' fencing_line"
    by (simp add: fencing_line_def sublist_Cons_right)
  show "keyword_search pacemaker_log_keywords fencing_line"
    unfolding keyword_search_iff pacemaker_alternatives
    by (rule bexI [of _ "''stonith-ng''"]) (simp_all add: 1)
  show "keyword_search system_log_keywords fencing_line"
    unfolding keyword_search_iff system_alternatives
    by (rule bexI [of _ "''reboot''"]) (simp_all add: 2)
qed

lemma parse_log_line_tagged:
  assumes "logtype = ''s'' \<or> logtype = ''p''"
  shows "parse_log_line now_year logline logtype conn =
     (if keyword_search (if logtype = ''s'' then system_log_keywords else pacemaker_log_keywords)
           logline
      then (case format_timestamp_from_logline now_year (re_sub_once pid_decoration logline) of
              Inl e \<Rightarrow> Inl e
            | Inr None \<Rightarrow> Inr conn
            | Inr (Some (t, kind)) \<Rightarrow>
                if kind = 1
                then make_record t (re_split whitespace 5 (re_sub_once pid_decoration logline)) 3 conn
                else if kind = 2
                then make_record t (re_split whitespace 3 (re_sub_once pid_decoration logline)) 1 conn
                else Inl UnboundLocalError)
      else Inr conn)"
  using assms by (auto simp: parse_log_line_def Let_def)

lemma fencing_line_record:
  assumes "1000 \<le> y" "y \<le> 9999" "logtype = ''s'' \<or> logtype = ''p''"
  shows "parse_log_line y fencing_line logtype conn =
     Inr (insert_log (str_nat y @ ''-01-05 10:00:00'') ''node1'' ''stonith-ng'' fencing_payload conn)"
proof -
  have k: "keyword_search (if logtype = ''s'' then system_log_keywords else pacemaker_log_keywords)
      fencing_line"
    by (simp add: fencing_line_keywords)
  have s: "strip ''/'' (strip '':'' ''stonith-ng:'') = ''stonith-ng''"
    by (simp add: strip_def)
  have m: "make_record \<lparr>year = y, month = 1, day = 5, hour = 10, minute = 0, second = 0\<rparr>
      (re_split whitespace 5 fencing_line) 3 conn =
      Inr (insert_log (str_nat y @ ''-01-05 10:00:00'') ''node1'' ''stonith-ng'' fencing_payload conn)"
    by (simp add: make_record_def fencing_line_split index_def s
        str_datetime_jan5 [OF assms(1,2), simplified])
  show ?thesis
    using assms(3) k
    by (simp add: parse_log_line_tagged fencing_line_sub
        fencing_line_timestamp [OF assms(1,2)] m [simplified])
qed

lemma union_ordered_single:
  assumes "critical r"
  shows "union_ordered None None [r] = [r]"
proof -
  have s: "set (union_ordered None None [r]) = {r}"
    using assms by (auto simp: set_union_ordered strictly_within_def)
  have "length (union_ordered None None [r]) = card (set (union_ordered None None [r]))"
    by (rule distinct_card [symmetric]) (rule distinct_union_ordered)
  then have "length (union_ordered None None [r]) = 1" by (simp add: s)
  then obtain x where x: "union_ordered None None [r] = [x]"
    by (cases "union_ordered None None [r]") auto
  with s show ?thesis by simp
qed

lemma fencing_payload_critical:
  "PAYLOAD r = fencing_payload \<Longrightarrow> critical r"
proof -
  have "like fencing_payload ''%remote_op_done%Operation%''"
    by (simp add: fencing_payload_def like_defs)
  then show "PAYLOAD r = fencing_payload \<Longrightarrow> critical r"
    by (simp add: critical_def sql1_def)
qed

lemma str_nat_2021: "str_nat 2021 = ''2021''"
  by code_simp




lemma keyword_searchI:
  "k \<in> set (alternatives pattern) \<Longrightarrow> sublist k logline \<Longrightarrow> keyword_search pattern logline"
  unfolding keyword_search_iff by blast

lemma truncated_line_time:
  "re_search time_format1 truncated_line = Some ([], ''Jan 5 10:00:00'', '' reboot'' @ [CHR 0x0A])"
  by (simp add: truncated_line_def re_defs class_defs)

lemma month13_line_search:
  "re_search time_format1 month13_line = None"
  "re_search time_format2 month13_line =
     Some ([], ''2021-13-05T10:00:00'', '' node1 stonith-ng: reboot'' @ [CHR 0x0A])"
  by (simp_all add: month13_line_def re_defs class_defs)

lemma strptime_month13: "strptime_format2 ''2021-13-05T10:00:00'' = None"
  by (simp add: strptime_format2_def dir_Y_def dir_defs class_defs)

section \<open>The order of the TIME texts is the order of time\<close>

lemma digit_char_0: "digit_char 0 = CHR ''0''"
  by code_simp

lemma digit_char_less: "a < 10 \<Longrightarrow> b < 10 \<Longrightarrow> (digit_char a < digit_char b) = (a < b)"
proof -
  assume a: "a < 10" and b: "b < 10"
  have "(of_char (digit_char a) :: nat) = 48 + a" "(of_char (digit_char b) :: nat) = 48 + b"
    using code_digit_char [OF a] code_digit_char [OF b] unfolding code_def by blast+
  then show ?thesis unfolding less_char_def by (simp only: nat_add_left_cancel_less)
qed

lemma digit_char_eq: "a < 10 \<Longrightarrow> b < 10 \<Longrightarrow> (digit_char a = digit_char b) = (a = b)"
proof -
  assume a: "a < 10" and b: "b < 10"
  have "code (digit_char a) = 48 + a" "code (digit_char b) = 48 + b"
    using code_digit_char [OF a] code_digit_char [OF b] by blast+
  then show ?thesis by (metis add_left_cancel)
qed

lemma zfill_2:
  assumes "n < 100"
  shows "zfill 2 (str_nat n) = [digit_char (n div 10), digit_char (n mod 10)]"
proof (cases "n < 10")
  case True
  then show ?thesis by (subst str_nat.simps) (simp add: zfill_def digit_char_0)
next
  case False
  then have "str_nat n = str_nat (n div 10) @ [digit_char (n mod 10)]"
    by (subst str_nat.simps) simp
  moreover have "str_nat (n div 10) = [digit_char (n div 10)]"
    using assms by (subst str_nat.simps) simp
  ultimately show ?thesis by (simp add: zfill_def)
qed

lemma two_digits_less:
  assumes "n < 100" "m < 100"
  shows "(zfill 2 (str_nat n) @ x < zfill 2 (str_nat m) @ y) = (n < m \<or> n = m \<and> x < y)"
proof -
  have d: "n div 10 < 10" "n mod 10 < 10" "m div 10 < 10" "m mod 10 < 10"
    using assms by simp_all
  have o: "(10 * q + r < 10 * q' + r') = (q < q' \<or> q = q' \<and> r < r')"
    if "r < 10" "r' < 10" for q r q' r' :: nat
    using that by auto
  have n: "n = 10 * (n div 10) + n mod 10" and m: "m = 10 * (m div 10) + m mod 10"
    by simp_all
  have a: "(n div 10 < m div 10 \<or> n div 10 = m div 10 \<and> n mod 10 < m mod 10) = (n < m)"
    using o [of "n mod 10" "m mod 10" "n div 10" "m div 10"] by simp
  have b: "(n div 10 = m div 10 \<and> n mod 10 = m mod 10) = (n = m)"
    using n m by metis
  have "(zfill 2 (str_nat n) @ x < zfill 2 (str_nat m) @ y) =
      (n div 10 < m div 10 \<or> n div 10 = m div 10 \<and>
         (n mod 10 < m mod 10 \<or> n mod 10 = m mod 10 \<and> x < y))"
    using d by (simp add: zfill_2 assms digit_char_less digit_char_eq)
  also have "\<dots> = (n < m \<or> n = m \<and> x < y)"
    using a b by blast
  finally show ?thesis .
qed

lemma zfill_4:
  assumes "n < 10000"
  shows "zfill 4 (str_nat n) = zfill 2 (str_nat (n div 100)) @ zfill 2 (str_nat (n mod 100))"
proof -
  have l: "n div 100 < 100" "n mod 100 < 100" using assms by simp_all
  have "n mod 100 = 10 * (n div 10 mod 10) + n mod 10"
    using mod_mult2_eq [of n 10 10] by simp
  then have e3: "n mod 100 div 10 = n div 10 mod 10" by simp
  have e: "n div 100 div 10 = n div 1000" "n mod 100 div 10 = n div 10 mod 10"
    "n mod 100 mod 10 = n mod 10"
    by (simp_all add: div_mult2_eq [symmetric] e3 mod_mod_cancel)
  have hi: "zfill 2 (str_nat (n div 100)) = [digit_char (n div 1000), digit_char (n div 100 mod 10)]"
    using zfill_2 [OF l(1)] e by simp
  have lo: "zfill 2 (str_nat (n mod 100)) = [digit_char (n div 10 mod 10), digit_char (n mod 10)]"
    using zfill_2 [OF l(2)] e by simp
  have "zfill 4 (str_nat n) = [digit_char (n div 1000), digit_char (n div 100 mod 10),
      digit_char (n div 10 mod 10), digit_char (n mod 10)]"
  proof (cases "n < 10")
    case True
    then show ?thesis
      by (subst str_nat.simps) (simp add: zfill_def digit_char_0 numeral_3_eq_3)
  next
    case n10: False
    then have s1: "str_nat n = str_nat (n div 10) @ [digit_char (n mod 10)]"
      by (subst str_nat.simps) simp
    show ?thesis
    proof (cases "n < 100")
      case True
      then have "str_nat (n div 10) = [digit_char (n div 10)]"
        by (subst str_nat.simps) simp
      with True s1 show ?thesis
        by (simp add: zfill_def digit_char_0 numeral_2_eq_2)
    next
      case n100: False
      then have s2: "str_nat (n div 10) = str_nat (n div 100) @ [digit_char (n div 10 mod 10)]"
        by (subst str_nat.simps) (simp add: div_mult2_eq [symmetric])
      show ?thesis
      proof (cases "n < 1000")
        case True
        then have "str_nat (n div 100) = [digit_char (n div 100)]"
          by (subst str_nat.simps) simp
        with True s1 s2 show ?thesis
          by (simp add: zfill_def digit_char_0)
      next
        case False
        then have "str_nat (n div 100) = str_nat (n div 1000) @ [digit_char (n div 100 mod 10)]"
          by (subst str_nat.simps) (simp add: div_mult2_eq [symmetric])
        moreover have "str_nat (n div 1000) = [digit_char (n div 1000)]"
          using assms by (subst str_nat.simps) simp
        ultimately show ?thesis using s1 s2
          by (simp add: zfill_def)
      qed
    qed
  qed
  then show ?thesis by (simp only: hi lo append.simps)
qed


lemma four_digits_less:
  assumes "n < 10000" "m < 10000"
  shows "(zfill 4 (str_nat n) @ x < zfill 4 (str_nat m) @ y) = (n < m \<or> n = m \<and> x < y)"
proof -
  have l: "n div 100 < 100" "n mod 100 < 100" "m div 100 < 100" "m mod 100 < 100"
    using assms by simp_all
  have o: "(100 * q + r < 100 * q' + r') = (q < q' \<or> q = q' \<and> r < r')"
    if "r < 100" "r' < 100" for q r q' r' :: nat
    using that by auto
  have n: "n = 100 * (n div 100) + n mod 100" and m: "m = 100 * (m div 100) + m mod 100"
    by simp_all
  have a: "(n div 100 < m div 100 \<or> n div 100 = m div 100 \<and> n mod 100 < m mod 100) = (n < m)"
    using o [of "n mod 100" "m mod 100" "n div 100" "m div 100"] by simp
  have b: "(n div 100 = m div 100 \<and> n mod 100 = m mod 100) = (n = m)"
    using n m by metis
  have "(zfill 4 (str_nat n) @ x < zfill 4 (str_nat m) @ y) =
      (n div 100 < m div 100 \<or> n div 100 = m div 100 \<and>
         (n mod 100 < m mod 100 \<or> n mod 100 = m mod 100 \<and> x < y))"
    by (simp only: zfill_4 assms append_assoc two_digits_less l)
  also have "\<dots> = (n < m \<or> n = m \<and> x < y)"
    using a b by blast
  finally show ?thesis .
qed

lemma new_datetime_fits: "new_datetime y mo d h mi s = Some t \<Longrightarrow> fits t"
  by (auto simp: new_datetime_def fits_def days_in_month_def split: if_splits)

lemma str_datetime_less:
  assumes "fits a" "fits b"
  shows "(str_datetime a < str_datetime b) = before a b"
proof -
  have s: "(c # x < c # y) = (x < y)" for c :: char and x y
    by simp
  have e: "(zfill 2 (str_nat n) < zfill 2 (str_nat m)) = (n < m)" if "n < 100" "m < 100" for n m
    using two_digits_less [OF that, of "[]" "[]"] by simp
  have "(str_datetime a < str_datetime b) =
    (year a < year b \<or> year a = year b \<and>
      (month a < month b \<or> month a = month b \<and>
        (day a < day b \<or> day a = day b \<and>
          (hour a < hour b \<or> hour a = hour b \<and>
            (minute a < minute b \<or> minute a = minute b \<and> second a < second b)))))"
    using assms
    by (simp only: str_datetime_def fits_def four_digits_less two_digits_less e s append_Cons
        append_Nil)
  also have "\<dots> = before a b"
    by (auto simp: before_def)
  finally show ?thesis .
qed

section \<open>What strptime accepts of a text in time format 2\<close>

lemma py_int_two: "is_digit a \<Longrightarrow> is_digit b \<Longrightarrow> py_int [a, b] = 10 * (code a - 48) + (code b - 48)"
  by (auto simp: py_int_def is_digit_def is_space_def)

lemma dir_m_sep:
  assumes "is_digit a" "is_digit b"
  shows "Option.bind (dir_m (a # b # CHR ''-'' # r)) (\<lambda>(g, s). Option.bind (chr (CHR ''-'') s) (k g))
     = (if 1 \<le> py_int [a, b] \<and> py_int [a, b] \<le> 12 then k [a, b] r else None)"
  using assms
  by (auto simp: py_int_two dir_m_def one_def two_def rng_def chr_def is_digit_def code_def)


lemma dir_d_sep:
  assumes "is_digit a" "is_digit b"
  shows "Option.bind (dir_d (a # b # CHR ''T'' # r)) (\<lambda>(g, s). Option.bind (chr (CHR ''T'') s) (k g))
     = (if 1 \<le> py_int [a, b] \<and> py_int [a, b] \<le> 31 then k [a, b] r else None)"
  using assms
  by (auto simp: py_int_two dir_d_def one_def two_def rng_def chr_def is_digit_def code_def)

lemma dir_H_sep:
  assumes "is_digit a" "is_digit b"
  shows "Option.bind (dir_H (a # b # CHR '':'' # r)) (\<lambda>(g, s). Option.bind (chr (CHR '':'') s) (k g))
     = (if py_int [a, b] \<le> 23 then k [a, b] r else None)"
  using assms
  by (auto simp: py_int_two dir_H_def one_def two_def rng_def chr_def is_digit_def code_def)

lemma dir_M_sep:
  assumes "is_digit a" "is_digit b"
  shows "Option.bind (dir_M (a # b # CHR '':'' # r)) (\<lambda>(g, s). Option.bind (chr (CHR '':'') s) (k g))
     = (if py_int [a, b] \<le> 59 then k [a, b] r else None)"
  using assms
  by (auto simp: py_int_two dir_M_def one_def two_def rng_def chr_def is_digit_def code_def)

lemma dir_S_end:
  assumes "is_digit a" "is_digit b"
  shows "Option.bind (dir_S [a, b]) (\<lambda>(g, s). if s = [] then k g else None)
     = (if py_int [a, b] \<le> 61 then k [a, b] else None)"
  using assms
  by (auto simp: py_int_two dir_S_def one_def two_def rng_def is_digit_def code_def)

lemma new_datetime_ranges:
  "(if 1 \<le> mo \<and> mo \<le> 12 then if 1 \<le> d \<and> d \<le> 31 then if h \<le> 23 then if mi \<le> 59
      then if s \<le> 61 then new_datetime y mo d h mi s else None else None else None else None
    else None) = new_datetime y mo d h mi s"
  by (auto simp: new_datetime_def days_in_month_def)

lemma strptime_format2_iso:
  assumes "list_all is_digit [y1, y2, y3, y4, m1, m2, d1, d2, h1, h2, i1, i2, s1, s2]"
  shows "strptime_format2 [y1, y2, y3, y4, CHR ''-'', m1, m2, CHR ''-'', d1, d2, CHR ''T'',
                           h1, h2, CHR '':'', i1, i2, CHR '':'', s1, s2]
     = new_datetime (py_int [y1, y2, y3, y4]) (py_int [m1, m2]) (py_int [d1, d2])
         (py_int [h1, h2]) (py_int [i1, i2]) (py_int [s1, s2])"
proof -
  have Y: "dir_Y (y1 # y2 # y3 # y4 # r) = Some ([y1, y2, y3, y4], r)" for r
    using assms by (simp add: dir_Y_def)
  have c: "chr x (x # r) = Some r" for x r
    by (simp add: chr_def)
  show ?thesis
    using assms
    by (simp add: strptime_format2_def Y c dir_m_sep dir_d_sep dir_H_sep dir_M_sep dir_S_end)
       (auto simp: new_datetime_def days_in_month_def)
qed


lemma match_here_One_Some:
  "(match_here (One p # r) s = Some (g, t)) =
     (\<exists>c cs g'. s = c # cs \<and> p c \<and> g = c # g' \<and> match_here r cs = Some (g', t))"
  by (cases s) (auto simp: matched_def split: option.splits)

lemma re_search_Some:
  "re_search p s = Some (b, g, a) \<Longrightarrow> \<exists>s'. s = b @ s' \<and> match_here p s' = Some (g, a)"
proof (induction s arbitrary: b)
  case Nil
  then show ?case by (auto split: option.splits)
next
  case (Cons c s)
  show ?case
  proof (cases "match_here p (c # s)")
    case None
    with Cons.prems obtain b' where b': "re_search p s = Some (b', g, a)" "b = c # b'"
      by (auto split: option.splits)
    from Cons.IH [OF b'(1)] b'(2) show ?thesis by auto
  next
    case (Some r)
    with Cons.prems show ?thesis by (cases r) auto
  qed
qed

lemma time_format2_shape:
  assumes "match_here time_format2 s = Some (g, t)"
  shows "\<exists>y1 y2 y3 y4 m1 m2 d1 d2 h1 h2 i1 i2 s1 s2.
     list_all is_digit [y1, y2, y3, y4, m1, m2, d1, d2, h1, h2, i1, i2, s1, s2]
     \<and> g = [y1, y2, y3, y4, CHR ''-'', m1, m2, CHR ''-'', d1, d2, CHR ''T'',
            h1, h2, CHR '':'', i1, i2, CHR '':'', s1, s2]"
  using assms unfolding time_format2_items
  by (simp only: match_here_One_Some match_here.simps) auto

lemma iso_candidate_conversion:
  assumes "re_search time_format2 line = Some (b, g, a)"
  shows "strptime_format2 g =
     new_datetime (py_int (take 4 g)) (py_int (take 2 (drop 5 g))) (py_int (take 2 (drop 8 g)))
       (py_int (take 2 (drop 11 g))) (py_int (take 2 (drop 14 g))) (py_int (take 2 (drop 17 g)))"
proof -
  from re_search_Some [OF assms] obtain s' where "match_here time_format2 s' = Some (g, a)"
    by blast
  from time_format2_shape [OF this]
  obtain y1 y2 y3 y4 m1 m2 d1 d2 h1 h2 i1 i2 s1 s2 where
    d: "list_all is_digit [y1, y2, y3, y4, m1, m2, d1, d2, h1, h2, i1, i2, s1, s2]" and
    g: "g = [y1, y2, y3, y4, CHR ''-'', m1, m2, CHR ''-'', d1, d2, CHR ''T'',
            h1, h2, CHR '':'', i1, i2, CHR '':'', s1, s2]"
    by blast
  show ?thesis
    unfolding g strptime_format2_iso [OF d] by simp
qed

section \<open>What strptime accepts of a text in time format 1\<close>

























section \<open>The timestamps of the table and of the bounds\<close>

lemma strptime_fits:
  "strptime_format1 s = Some t \<Longrightarrow> fits t"
  "strptime_format2 s = Some t \<Longrightarrow> fits t"
  "strptime_date_time s = Some t \<Longrightarrow> fits t"
  "strptime_date s = Some t \<Longrightarrow> fits t"
  by (auto simp: strptime_format1_def strptime_format2_def strptime_date_time_def
      strptime_date_def dest: new_datetime_fits split: Option.bind_splits prod.splits if_splits)

lemma timestamp_fits:
  "format_timestamp_from_logline y line = Inr (Some (t, kind)) \<Longrightarrow> fits t"
  by (auto simp: format_timestamp_from_logline_def dest: strptime_fits split: option.splits)

lemma timeinput_fits: "format_timestamp_from_timeinput time = Inr t \<Longrightarrow> fits t"
  by (auto simp: format_timestamp_from_timeinput_def dest: strptime_fits
      split: option.splits if_splits)

lemma make_record_stamped:
  "make_record t newline i conn = Inr conn' \<Longrightarrow> fits t \<Longrightarrow> stamped conn \<Longrightarrow> stamped conn'"
  by (fastforce simp: make_record_def insert_log_def stamped_def split: sum.splits)

lemma parse_log_line_stamped:
  assumes "parse_log_line y logline logtype conn = Inr conn'" "stamped conn"
  shows "stamped conn'"
proof -
  have "make_record t newline i conn = Inr conn' \<Longrightarrow>
      format_timestamp_from_logline y line = Inr (Some (t, kind)) \<Longrightarrow> stamped conn'"
    for t newline i line kind
    using assms(2) make_record_stamped timestamp_fits by blast
  then show ?thesis
    using assms
    by (auto simp: parse_log_line_def Let_def split: if_splits sum.splits option.splits)
qed

lemma parse_lines_stamped:
  "parse_lines y lines logtype conn = Inr conn' \<Longrightarrow> stamped conn \<Longrightarrow> stamped conn'"
  by (induction lines arbitrary: conn) (auto split: sum.splits dest: parse_log_line_stamped)

lemma window_is_time_order:
  assumes "fits b" "fits e" "fits t" "TIME r = str_datetime t"
  shows "strictly_within (Some b) (Some e) r = (before b t \<and> before t e)"
    and "strictly_within (Some b) None r = before b t"
    and "strictly_within None (Some e) r = before t e"
  using assms by (simp_all add: strictly_within_def str_datetime_less)

lemma timeinput_examples:
  "format_timestamp_from_timeinput ''2021-01-01'' = Inr example_begin"
  "format_timestamp_from_timeinput ''2021-01-02'' = Inr example_end"
  "format_timestamp_from_timeinput ''2021-13-01'' = Inl SysExit"
  by code_simp+

text \<open>A table that the loop over the lines has filled from the empty table has its rowids
  in the order of insertion and its TIME texts written by \<open>str\<close>.\<close>

lemma ingested_table:
  assumes "parse_lines y lines logtype [] = Inr conn"
  shows "sorted_wrt (<) (map rowid conn)" and "distinct (map rowid conn)" and "stamped conn"
proof -
  show 1: "sorted_wrt (<) (map rowid conn)"
    using parse_lines_rowids [OF assms] by simp
  then show "distinct (map rowid conn)" by (rule rowids_distinct)
  show "stamped conn"
    using parse_lines_stamped [OF assms] by (simp add: stamped_def)
qed

section \<open>The end-to-end scenarios\<close>

text \<open>
  C7. With the pacemaker tag and no time window the fencing line gives exactly one record
  of the result, with node \<open>node1\<close>, component \<open>stonith-ng\<close> (the colon stripped) and
  a payload that contains \<open>remote_op_done\<close>. The year of the timestamp is the current
  year, a year of four digits.
\<close>

theorem fencing_line_pacemaker:
  assumes "1000 \<le> now_year" "now_year \<le> 9999"
  shows "parse_log_line now_year fencing_line ''p'' [] =
      Inr [\<lparr>rowid = 1, TIME = str_nat now_year @ ''-01-05 10:00:00'', NODE = ''node1'',
            COMPONENT = ''stonith-ng'', PAYLOAD = fencing_payload\<rparr>]
    \<and> sql_query None None
        [\<lparr>rowid = 1, TIME = str_nat now_year @ ''-01-05 10:00:00'', NODE = ''node1'',
          COMPONENT = ''stonith-ng'', PAYLOAD = fencing_payload\<rparr>]
      = [(str_nat now_year @ ''-01-05 10:00:00'', ''node1'', ''stonith-ng'', fencing_payload)]
    \<and> sublist ''remote_op_done'' fencing_payload
    \<and> logparser now_year [] [Some [fencing_line]] None None
      = Inr [(str_nat now_year @ ''-01-05 10:00:00'', ''node1'', ''stonith-ng'', fencing_payload)]"
proof (intro conjI)
  show p: "parse_log_line now_year fencing_line ''p'' [] =
      Inr [\<lparr>rowid = 1, TIME = str_nat now_year @ ''-01-05 10:00:00'', NODE = ''node1'',
            COMPONENT = ''stonith-ng'', PAYLOAD = fencing_payload\<rparr>]"
    by (simp add: fencing_line_record [OF assms] insert_log_def next_rowid_def)
  show "sql_query None None
        [\<lparr>rowid = 1, TIME = str_nat now_year @ ''-01-05 10:00:00'', NODE = ''node1'',
          COMPONENT = ''stonith-ng'', PAYLOAD = fencing_payload\<rparr>]
      = [(str_nat now_year @ ''-01-05 10:00:00'', ''node1'', ''stonith-ng'', fencing_payload)]"
    by (simp add: sql_query_def union_ordered_single fencing_payload_critical)
  then show "logparser now_year [] [Some [fencing_line]] None None
      = Inr [(str_nat now_year @ ''-01-05 10:00:00'', ''node1'', ''stonith-ng'', fencing_payload)]"
    by (simp add: logparser_def p)
  show "sublist ''remote_op_done'' fencing_payload"
    by (simp add: fencing_payload_def sublist_Cons_right)
qed

theorem fencing_line_pacemaker_witness:
  "(1000::nat) \<le> 2021 \<and> (2021::nat) \<le> 9999
   \<and> parse_log_line 2021 fencing_line ''p'' [] =
      Inr [\<lparr>rowid = 1, TIME = ''2021-01-05 10:00:00'', NODE = ''node1'',
            COMPONENT = ''stonith-ng'', PAYLOAD = fencing_payload\<rparr>]"
  using fencing_line_pacemaker [of 2021] by (simp add: str_nat_2021)

text \<open>
  C6. With the system tag the fencing line gives one record as well, the same as with the
  pacemaker tag: \<open>reboot\<close> is a branch of the system keyword pattern and occurs in the
  line, so the keyword filter lets the line through.
\<close>

theorem fencing_line_system:
  assumes "1000 \<le> now_year" "now_year \<le> 9999"
  shows "''reboot'' \<in> set (alternatives system_log_keywords) \<and> sublist ''reboot'' fencing_line
    \<and> parse_log_line now_year fencing_line ''s'' [] =
      Inr [\<lparr>rowid = 1, TIME = str_nat now_year @ ''-01-05 10:00:00'', NODE = ''node1'',
            COMPONENT = ''stonith-ng'', PAYLOAD = fencing_payload\<rparr>]
    \<and> sql_query None None
        [\<lparr>rowid = 1, TIME = str_nat now_year @ ''-01-05 10:00:00'', NODE = ''node1'',
          COMPONENT = ''stonith-ng'', PAYLOAD = fencing_payload\<rparr>]
      = [(str_nat now_year @ ''-01-05 10:00:00'', ''node1'', ''stonith-ng'', fencing_payload)]
    \<and> logparser now_year [Some [fencing_line]] [] None None
      = Inr [(str_nat now_year @ ''-01-05 10:00:00'', ''node1'', ''stonith-ng'', fencing_payload)]"
proof (intro conjI)
  show "''reboot'' \<in> set (alternatives system_log_keywords)"
    by (simp add: system_alternatives)
  show "sublist ''reboot'' fencing_line"
    by (simp add: fencing_line_def sublist_Cons_right)
  show p: "parse_log_line now_year fencing_line ''s'' [] =
      Inr [\<lparr>rowid = 1, TIME = str_nat now_year @ ''-01-05 10:00:00'', NODE = ''node1'',
            COMPONENT = ''stonith-ng'', PAYLOAD = fencing_payload\<rparr>]"
    by (simp add: fencing_line_record [OF assms] insert_log_def next_rowid_def)
  show "sql_query None None
        [\<lparr>rowid = 1, TIME = str_nat now_year @ ''-01-05 10:00:00'', NODE = ''node1'',
          COMPONENT = ''stonith-ng'', PAYLOAD = fencing_payload\<rparr>]
      = [(str_nat now_year @ ''-01-05 10:00:00'', ''node1'', ''stonith-ng'', fencing_payload)]"
    by (simp add: sql_query_def union_ordered_single fencing_payload_critical)
  then show "logparser now_year [Some [fencing_line]] [] None None
      = Inr [(str_nat now_year @ ''-01-05 10:00:00'', ''node1'', ''stonith-ng'', fencing_payload)]"
    by (simp add: logparser_def p)
qed

theorem fencing_line_system_witness:
  "(1000::nat) \<le> 2021 \<and> (2021::nat) \<le> 9999
   \<and> parse_log_line 2021 fencing_line ''s'' [] =
      Inr [\<lparr>rowid = 1, TIME = ''2021-01-05 10:00:00'', NODE = ''node1'',
            COMPONENT = ''stonith-ng'', PAYLOAD = fencing_payload\<rparr>]"
  using fencing_line_system [of 2021] by (simp add: str_nat_2021)

theorem fencing_line_system_counterexample:
  "keyword_search system_log_keywords fencing_line
   \<and> parse_log_line 2021 fencing_line ''s'' [] =
      Inr [\<lparr>rowid = 1, TIME = ''2021-01-05 10:00:00'', NODE = ''node1'',
            COMPONENT = ''stonith-ng'', PAYLOAD = fencing_payload\<rparr>]
   \<and> sql_query None None
        [\<lparr>rowid = 1, TIME = ''2021-01-05 10:00:00'', NODE = ''node1'',
          COMPONENT = ''stonith-ng'', PAYLOAD = fencing_payload\<rparr>] \<noteq> []"
proof (intro conjI)
  show "keyword_search system_log_keywords fencing_line"
    by (rule fencing_line_keywords)
  have "parse_log_line 2021 fencing_line ''s'' [] =
      Inr (insert_log (str_nat 2021 @ ''-01-05 10:00:00'') ''node1'' ''stonith-ng'' fencing_payload [])"
    by (rule fencing_line_record) simp_all
  then show "parse_log_line 2021 fencing_line ''s'' [] =
      Inr [\<lparr>rowid = 1, TIME = ''2021-01-05 10:00:00'', NODE = ''node1'',
            COMPONENT = ''stonith-ng'', PAYLOAD = fencing_payload\<rparr>]"
    by (simp add: insert_log_def next_rowid_def str_nat_2021)
  show "sql_query None None
        [\<lparr>rowid = 1, TIME = ''2021-01-05 10:00:00'', NODE = ''node1'',
          COMPONENT = ''stonith-ng'', PAYLOAD = fencing_payload\<rparr>] \<noteq> []"
    by (simp add: sql_query_def union_ordered_single fencing_payload_critical)
qed

section \<open>The timestamp of a line\<close>




section \<open>Lines that cannot be parsed\<close>

text \<open>
  C4. A line that passes the keyword filter and has a timestamp, but splits into fewer
  fields than its time format needs (six for format 1, four for format 2), is not skipped:
  reading the missing field raises IndexError, which nothing catches, and the loop over
  the lines ends with it.
\<close>

theorem short_line_raises_IndexError:
  assumes tag: "logtype = ''s'' \<or> logtype = ''p''"
    and kw: "keyword_search (if logtype = ''s'' then system_log_keywords else pacemaker_log_keywords)
       logline"
    and ts: "format_timestamp_from_logline now_year (re_sub_once pid_decoration logline)
       = Inr (Some (t, kind))"
    and short: "length (re_split whitespace (if kind = 1 then 5 else 3)
         (re_sub_once pid_decoration logline)) < (if kind = 1 then 6 else 4)"
  shows "parse_log_line now_year logline logtype conn = Inl IndexError
    \<and> parse_lines now_year (logline # lines) logtype conn = Inl IndexError
    \<and> logfile_parser now_year (Some (logline # lines) # files) logtype conn = Inl IndexError"
proof -
  have m: "length newline < i + 3 \<Longrightarrow> make_record t newline i conn = Inl IndexError" for newline i
    by (auto simp: make_record_def index_def)
  have k: "kind = 1 \<or> kind = 2"
    using ts by (auto simp: format_timestamp_from_logline_def split: option.splits)
  have "parse_log_line now_year logline logtype conn = Inl IndexError"
    using tag kw ts short k
    by (auto simp: parse_log_line_tagged m split: if_splits)
  then show ?thesis by simp
qed

theorem short_line_raises_IndexError_witness:
  "parse_lines 2021 [truncated_line, fencing_line] ''s'' [] = Inl IndexError"
proof -
  have kw: "keyword_search (if ''s'' = ''s'' then system_log_keywords else pacemaker_log_keywords)
       truncated_line"
    by (simp, rule keyword_searchI [of "''reboot''"])
       (simp_all add: system_alternatives truncated_line_def sublist_Cons_right)
  have sub: "re_sub_once pid_decoration truncated_line = truncated_line"
    by (rule no_pid_decoration) (simp add: truncated_line_def)
  have ts: "format_timestamp_from_logline 2021 (re_sub_once pid_decoration truncated_line)
       = Inr (Some (\<lparr>year = 2021, month = 1, day = 5, hour = 10, minute = 0, second = 0\<rparr>, 1))"
    using strptime_jan5 [of 2021]
    by (simp add: sub format_timestamp_from_logline_def truncated_line_time)
  have split: "re_split whitespace 5 truncated_line = [''Jan'', ''5'', ''10:00:00'', ''reboot'', []]"
    by (simp add: truncated_line_def re_split_numeral re_split_Suc_0 whitespace_def
      matched_def is_space_def code_def)
  have short: "length (re_split whitespace (if (1::nat) = 1 then 5 else 3)
         (re_sub_once pid_decoration truncated_line)) < (if (1::nat) = 1 then 6 else 4)"
    by (simp add: sub split)
  from short_line_raises_IndexError [where logtype = "''s''" and lines = "[fencing_line]" and conn = "[]",
      OF _ kw ts short]
  show ?thesis by simp
qed

text \<open>
  C5. A line that passes the keyword filter and in which a time format is found (format 1,
  or format 2 when format 1 is not found), but whose matched text \<open>strptime\<close> rejects,
  is not dropped: the ValueError is caught and answered with \<open>sys.exit()\<close>, so no record
  is stored and the run ends at this line. What \<open>strptime\<close> rejects of a text in time
  format 1 or 2 is stated by the lemmas \<open>syslog_candidate_conversion\<close> and
  \<open>iso_candidate_conversion\<close>.
\<close>

theorem rejected_timestamp_exits:
  assumes tag: "logtype = ''s'' \<or> logtype = ''p''"
    and kw: "keyword_search (if logtype = ''s'' then system_log_keywords else pacemaker_log_keywords)
       logline"
    and cand:
      "(\<exists>b g a. re_search time_format1 (re_sub_once pid_decoration logline) = Some (b, g, a)
          \<and> strptime_format1 (str_nat now_year @ '' '' @ g) = None)
       \<or> (re_search time_format1 (re_sub_once pid_decoration logline) = None
          \<and> (\<exists>b g a. re_search time_format2 (re_sub_once pid_decoration logline) = Some (b, g, a)
                \<and> strptime_format2 g = None))"
  shows "parse_log_line now_year logline logtype conn = Inl SysExit
    \<and> parse_lines now_year (logline # lines) logtype conn = Inl SysExit
    \<and> logfile_parser now_year (Some (logline # lines) # files) logtype conn = Inl SysExit"
proof -
  have "format_timestamp_from_logline now_year (re_sub_once pid_decoration logline) = Inl SysExit"
    using cand by (auto simp: format_timestamp_from_logline_def)
  then have "parse_log_line now_year logline logtype conn = Inl SysExit"
    using tag kw by (auto simp: parse_log_line_tagged)
  then show ?thesis by simp
qed

theorem rejected_timestamp_exits_witness:
  "parse_lines 2021 [hour25_line, fencing_line] ''p'' [] = Inl SysExit"
proof -
  have kw: "keyword_search (if ''p'' = ''s'' then system_log_keywords else pacemaker_log_keywords)
       hour25_line"
    by (simp, rule keyword_searchI [of "''stonith-ng''"])
       (simp_all add: pacemaker_alternatives hour25_line_def sublist_Cons_right)
  have sub: "re_sub_once pid_decoration hour25_line = hour25_line"
    by (rule no_pid_decoration) (simp add: hour25_line_def)
  have s: "re_search time_format1 hour25_line =
      Some ([], ''Jan 5 25:00:00'', '' node1 stonith-ng: reboot'' @ [CHR 0x0A])"
    by (simp add: hour25_line_def re_defs class_defs)
  have p: "strptime_format1 (str_nat 2021 @ '' '' @ ''Jan 5 25:00:00'') = None"
    by (simp add: str_nat_2021 strptime_format1_def dir_Y_def dir_defs class_defs)
  have cand: "(\<exists>b g a. re_search time_format1 (re_sub_once pid_decoration hour25_line) = Some (b, g, a)
          \<and> strptime_format1 (str_nat 2021 @ '' '' @ g) = None)
       \<or> (re_search time_format1 (re_sub_once pid_decoration hour25_line) = None
          \<and> (\<exists>b g a. re_search time_format2 (re_sub_once pid_decoration hour25_line) = Some (b, g, a)
                \<and> strptime_format2 g = None))"
    unfolding sub s using p by blast
  from rejected_timestamp_exits [where logtype = "''p''" and lines = "[fencing_line]" and conn = "[]", OF _ kw cand]
  show ?thesis by simp
qed

theorem month13_line_not_dropped_counterexample:
  "re_search time_format2 month13_line =
     Some ([], ''2021-13-05T10:00:00'', '' node1 stonith-ng: reboot'' @ [CHR 0x0A])
   \<and> parse_log_line 2021 month13_line ''p'' [] = Inl SysExit
   \<and> parse_lines 2021 [month13_line, fencing_line] ''p'' [] = Inl SysExit"
proof -
  have kw: "keyword_search pacemaker_log_keywords month13_line"
    by (rule keyword_searchI [of "''stonith-ng''"])
       (simp_all add: pacemaker_alternatives month13_line_def sublist_Cons_right)
  have sub: "re_sub_once pid_decoration month13_line = month13_line"
    by (rule no_pid_decoration) (simp add: month13_line_def)
  have "format_timestamp_from_logline 2021 month13_line = Inl SysExit"
    by (simp add: format_timestamp_from_logline_def month13_line_search strptime_month13)
  then have "parse_log_line 2021 month13_line ''p'' [] = Inl SysExit"
    using kw by (simp add: parse_log_line_tagged sub)
  then show ?thesis by (simp add: month13_line_search)
qed

section \<open>The joined keyword\<close>

text \<open>
  C10. In the pacemaker keyword pattern the literals \<open>cli-prefer\<close> and
  \<open>cib-bootstrap-options-maintenance-mode\<close> are joined without a bar, so the pattern has
  the branch \<open>cli-prefercib-bootstrap-options-maintenance-mode\<close> and no branch
  \<open>cli-prefer\<close>. A pacemaker line that contains \<open>cli-prefer\<close> but neither the joined
  literal nor any other branch of the pattern does not pass the keyword filter: no record
  is stored for it, and the loop goes on with the next line.
\<close>

theorem cli_prefer_line_rejected:
  assumes "sublist ''cli-prefer'' logline"
    and "\<not> sublist ''cli-prefercib-bootstrap-options-maintenance-mode'' logline"
    and "\<forall>k \<in> set [''LogAction'', ''LogNodeActions'', ''stonith-ng'', ''pacemaker-fenced'',
           ''crit:'', ''check_migration_threshold'', ''corosync'', ''Result of'', ''reboot'',
           ''cannot run anywhere'', ''attrd_peer_update'', ''High CPU load detected'', ''cli-ban'',
           ''-is-managed'', ''-maintenance'', ''-standby'']. \<not> sublist k logline"
  shows "''cli-prefer'' \<notin> set (alternatives pacemaker_log_keywords)
    \<and> ''cli-prefercib-bootstrap-options-maintenance-mode'' \<in> set (alternatives pacemaker_log_keywords)
    \<and> \<not> keyword_search pacemaker_log_keywords logline
    \<and> parse_log_line now_year logline ''p'' conn = Inr conn
    \<and> parse_lines now_year (logline # lines) ''p'' conn = parse_lines now_year lines ''p'' conn"
proof -
  have n: "\<not> keyword_search pacemaker_log_keywords logline"
    using assms(2,3) unfolding keyword_search_iff pacemaker_alternatives by simp
  then have p: "parse_log_line now_year logline ''p'' conn = Inr conn"
    by (simp add: parse_log_line_tagged)
  show ?thesis
    using n p by (simp add: pacemaker_alternatives)
qed

theorem cli_prefer_line_rejected_witness:
  "sublist ''cli-prefer'' cli_prefer_line
   \<and> like (''cli-prefer-rsc_ip node2'' @ [CHR 0x0A]) ''%cli-prefer%''
   \<and> parse_log_line 2021 cli_prefer_line ''p'' [] = Inr []"
proof -
  have 1: "sublist ''cli-prefer'' cli_prefer_line"
    by (simp add: cli_prefer_line_def sublist_Cons_right)
  have 2: "\<not> sublist ''cli-prefercib-bootstrap-options-maintenance-mode'' cli_prefer_line"
    by (simp add: cli_prefer_line_def sublist_Cons_right)
  have 3: "\<forall>k \<in> set [''LogAction'', ''LogNodeActions'', ''stonith-ng'', ''pacemaker-fenced'',
           ''crit:'', ''check_migration_threshold'', ''corosync'', ''Result of'', ''reboot'',
           ''cannot run anywhere'', ''attrd_peer_update'', ''High CPU load detected'', ''cli-ban'',
           ''-is-managed'', ''-maintenance'', ''-standby'']. \<not> sublist k cli_prefer_line"
    by (simp add: cli_prefer_line_def sublist_Cons_right)
  have 4: "like (''cli-prefer-rsc_ip node2'' @ [CHR 0x0A]) ''%cli-prefer%''"
    by (simp add: like_defs)
  from cli_prefer_line_rejected [OF 1 2 3, of 2021 "[]" "[]"] 1 4 show ?thesis by simp
qed

end
